theory Spec2Isabelle
  imports Main "HOL-Library.AList" "HOL-Library.Sublist"
begin

section \<open>The connection hook of the MCP inspector client\<close>

text \<open>
  A shallow embedding of \<^verbatim>\<open>client/src/lib/hooks/useConnection.ts\<close>. The hook keeps four
  pieces of React state (connection status, server capabilities, the client, the request
  history) and talks to the browser (session storage, timers, the location, the console),
  to the toast channel and to the protocol client of the SDK. All of that is explicit
  state here: the functions of the hook take a \<open>world\<close> and return the new one, together
  with how the \<^verbatim>\<open>async\<close> function completed (it returned, or it threw).
\<close>

subsection \<open>Values: JSON, thrown values, completions\<close>

text \<open>
  Requests, notifications, responses and capabilities are JSON values; numbers are the
  integers (the hook never computes with them, it only serialises them).
\<close>

datatype json = JNull | JBool bool | JNum int | JStr string
  | JArr "json list" | JObj "(string \<times> json) list"

text \<open>
  What a \<^verbatim>\<open>catch\<close> of the hook can receive: an \<^verbatim>\<open>Error\<close> with its message, the
  transport's \<^verbatim>\<open>SseError\<close> (an \<^verbatim>\<open>Error\<close> with a code), or a string (the reason of an
  aborted signal is the string given to \<^verbatim>\<open>abort\<close>).
\<close>

datatype thrown = ErrorObj string | SseError "int option" string | StrVal string

datatype 'a completion = Returned 'a | Threw thrown

text \<open>\<^verbatim>\<open>e instanceof Error\<close>, \<^verbatim>\<open>e.message\<close> (undefined on a string) and \<^verbatim>\<open>String(e)\<close>.\<close>

fun instanceofError :: "thrown \<Rightarrow> bool" where
  "instanceofError (ErrorObj m) = True"
| "instanceofError (SseError c m) = True"
| "instanceofError (StrVal s) = False"

fun message :: "thrown \<Rightarrow> string option" where
  "message (ErrorObj m) = Some m"
| "message (SseError c m) = Some m"
| "message (StrVal s) = None"

fun String_of :: "thrown \<Rightarrow> string" where
  "String_of (ErrorObj m) = (if m = [] then ''Error'' else ''Error: '' @ m)"
| "String_of (SseError c m) = (if m = [] then ''Error'' else ''Error: '' @ m)"
| "String_of (StrVal s) = s"

text \<open>\<^verbatim>\<open>(e as Error).message ?? String(e)\<close>\<close>

definition messageOrString :: "thrown \<Rightarrow> string" where
  "messageOrString e = (case message e of Some m \<Rightarrow> m | None \<Rightarrow> String_of e)"

text \<open>\<^verbatim>\<open>error instanceof SseError && error.code === 401\<close>\<close>

fun isSse401 :: "thrown \<Rightarrow> bool" where
  "isSse401 (SseError c m) = (c = Some 401)"
| "isSse401 (ErrorObj m) = False"
| "isSse401 (StrVal s) = False"

subsection \<open>\<^verbatim>\<open>JSON.stringify\<close> and the serialisation of search parameters\<close>

definition hexDigit :: "bool \<Rightarrow> nat \<Rightarrow> char" where
  "hexDigit upper n =
     (if upper then ''0123456789ABCDEF'' ! (n mod 16) else ''0123456789abcdef'' ! (n mod 16))"

definition hex2 :: "bool \<Rightarrow> nat \<Rightarrow> string" where
  "hex2 upper n = [hexDigit upper (n div 16 mod 16), hexDigit upper (n mod 16)]"

definition escapeChar :: "char \<Rightarrow> string" where
  "escapeChar c =
     (if c = CHR 0x22 then [CHR 0x5C, CHR 0x22]
      else if c = CHR 0x5C then [CHR 0x5C, CHR 0x5C]
      else if c = CHR 0x08 then [CHR 0x5C, CHR ''b'']
      else if c = CHR 0x0C then [CHR 0x5C, CHR ''f'']
      else if c = CHR 0x0A then [CHR 0x5C, CHR ''n'']
      else if c = CHR 0x0D then [CHR 0x5C, CHR ''r'']
      else if c = CHR 0x09 then [CHR 0x5C, CHR ''t'']
      else if (of_char c :: nat) < 32
        then [CHR 0x5C, CHR ''u'', CHR ''0'', CHR ''0''] @ hex2 False (of_char c)
      else [c])"

definition quote :: "string \<Rightarrow> string" where
  "quote s = [CHR 0x22] @ concat (map escapeChar s) @ [CHR 0x22]"

fun join :: "string \<Rightarrow> string list \<Rightarrow> string" where
  "join sep [] = []"
| "join sep [x] = x"
| "join sep (x # y # ys) = x @ sep @ join sep (y # ys)"

fun natDigits :: "nat \<Rightarrow> string" where
  "natDigits n =
     (if n < 10 then [''0123456789'' ! n]
      else natDigits (n div 10) @ [''0123456789'' ! (n mod 10)])"

definition intString :: "int \<Rightarrow> string" where
  "intString i = (if i < 0 then CHR ''-'' # natDigits (nat (- i)) else natDigits (nat i))"

fun stringify :: "json \<Rightarrow> string" where
  "stringify JNull = ''null''"
| "stringify (JBool b) = (if b then ''true'' else ''false'')"
| "stringify (JNum n) = intString n"
| "stringify (JStr s) = quote s"
| "stringify (JArr xs) = ''['' @ join '','' (map stringify xs) @ '']''"
| "stringify (JObj kvs) =
     ''{'' @ join '','' (map (\<lambda>kv. quote (fst kv) @ '':'' @ stringify (snd kv)) kvs) @ ''}''"

text \<open>
  \<^verbatim>\<open>URLSearchParams\<close> serialises its list as \<^verbatim>\<open>application/x-www-form-urlencoded\<close>:
  a space becomes \<^verbatim>\<open>+\<close>, letters, digits and \<^verbatim>\<open>*-._\<close> stay, every other byte is
  percent-encoded with upper-case digits.
\<close>

definition formByte :: "char \<Rightarrow> string" where
  "formByte c =
     (let n = (of_char c :: nat) in
      if c = CHR '' '' then ''+''
      else if (48 \<le> n \<and> n \<le> 57) \<or> (65 \<le> n \<and> n \<le> 90) \<or> (97 \<le> n \<and> n \<le> 122)
              \<or> c = CHR ''*'' \<or> c = CHR ''-'' \<or> c = CHR ''.'' \<or> c = CHR ''_''
      then [c]
      else CHR ''%'' # hex2 True n)"

definition formEncode :: "string \<Rightarrow> string" where
  "formEncode s = concat (map formByte s)"

definition serializeParams :: "(string \<times> string) list \<Rightarrow> string" where
  "serializeParams ps =
     join ''&'' (map (\<lambda>p. formEncode (fst p) @ ''='' @ formEncode (snd p)) ps)"

text \<open>
  A parsed URL: what stands before the query, the list of search parameters, and the
  fragment (with its \<^verbatim>\<open>#\<close>, or empty).
\<close>

record url =
  urlBase :: string
  searchParams :: "(string \<times> string) list"
  urlFragment :: string

definition href :: "url \<Rightarrow> string" where
  "href u =
     urlBase u
     @ (if searchParams u = [] then [] else ''?'' @ serializeParams (searchParams u))
     @ urlFragment u"

definition searchParams_append :: "string \<Rightarrow> string \<Rightarrow> url \<Rightarrow> url" where
  "searchParams_append name v u = u\<lparr>searchParams := searchParams u @ [(name, v)]\<rparr>"

subsection \<open>The state of the hook and of the browser\<close>

datatype status = Disconnected | Connected | Error

datatype transport = Stdio | Sse

datatype schema = ProgressNotificationSchema | StdErrNotificationSchema
  | CreateMessageRequestSchema | ListRootsRequestSchema

type_synonym headers = "(string \<times> string) list"

text \<open>The client object: where its transport points, and the handlers set on it.\<close>

record client =
  transportUrl :: string
  transportHeaders :: headers
  notificationHandlers :: "schema list"
  requestHandlers :: "schema list"

record history_entry =
  request :: string
  response :: "string option"

text \<open>Every call that leaves the hook is written to the trace, in the order it is made.\<close>

datatype effect =
    SetTimeout nat nat
  | ClearTimeout nat
  | TimerFired nat
  | AbortSignal string
  | RequestCall json
  | NotificationCall json
  | ToastError string
  | ConsoleError "string option" thrown
  | ConnectCall string headers
  | RefreshCall string
  | StartOAuthCall string
  | Redirect string

record world =
  connectionStatus :: status
  serverCapabilities :: "json option"
  mcpClient :: "client option"
  requestHistory :: "history_entry list"
  sessionStorage :: "(string \<times> string) list"
  timers :: "nat list"
  nextTimerId :: nat
  locationHref :: "string option"
  trace :: "effect list"

text \<open>The options of the hook; a callback is modelled by whether it was given.\<close>

record options =
  transportType :: transport
  command :: string
  args :: string
  sseUrl :: string
  env :: "(string \<times> string) list"
  proxyServerUrl :: string
  requestTimeout :: "nat option"
  onNotification :: bool
  onStdErrNotification :: bool
  onPendingRequest :: bool
  getRoots :: bool

definition DEFAULT_REQUEST_TIMEOUT_MSEC :: nat where
  "DEFAULT_REQUEST_TIMEOUT_MSEC = 300000"

definition timeoutOf :: "options \<Rightarrow> nat" where
  "timeoutOf opts =
     (case requestTimeout opts of None \<Rightarrow> DEFAULT_REQUEST_TIMEOUT_MSEC | Some ms \<Rightarrow> ms)"

definition emit :: "effect \<Rightarrow> world \<Rightarrow> world" where
  "emit e w = w\<lparr>trace := trace w @ [e]\<rparr>"

definition toast_error :: "string \<Rightarrow> world \<Rightarrow> world" where
  "toast_error msg w = emit (ToastError msg) w"

definition console_error :: "string option \<Rightarrow> thrown \<Rightarrow> world \<Rightarrow> world" where
  "console_error label e w = emit (ConsoleError label e) w"

text \<open>Timers of the browser: \<^verbatim>\<open>setTimeout\<close> arms one, \<^verbatim>\<open>clearTimeout\<close> disarms it.\<close>

definition setTimeout :: "nat \<Rightarrow> world \<Rightarrow> world \<times> nat" where
  "setTimeout ms w =
     (emit (SetTimeout (nextTimerId w) ms)
        (w\<lparr>timers := timers w @ [nextTimerId w], nextTimerId := Suc (nextTimerId w)\<rparr>),
      nextTimerId w)"

definition clearTimeout :: "nat \<Rightarrow> world \<Rightarrow> world" where
  "clearTimeout tid w = emit (ClearTimeout tid) (w\<lparr>timers := removeAll tid (timers w)\<rparr>)"

text \<open>
  A timer that fires is no longer armed; its callback in \<^verbatim>\<open>makeRequest\<close> is
  \<^verbatim>\<open>abortController.abort("Request timed out")\<close>.
\<close>

definition fireTimer :: "nat \<Rightarrow> world \<Rightarrow> world" where
  "fireTimer tid w = emit (TimerFired tid) (w\<lparr>timers := removeAll tid (timers w)\<rparr>)"

definition abort :: "string \<Rightarrow> world \<Rightarrow> world" where
  "abort reason w = emit (AbortSignal reason) w"

text \<open>The messages sent to the toast channel, read off a trace.\<close>

fun toasts :: "effect list \<Rightarrow> string list" where
  "toasts [] = []"
| "toasts (ToastError msg # es) = msg # toasts es"
| "toasts (e # es) = toasts es"


subsection \<open>The request and notification gateway\<close>

definition pushHistory :: "json \<Rightarrow> json option \<Rightarrow> world \<Rightarrow> world" where
  "pushHistory req resp w =
     w\<lparr>requestHistory := requestHistory w @
         [\<lparr>request = stringify req,
           response = (case resp of None \<Rightarrow> None | Some r \<Rightarrow> Some (stringify r))\<rparr>]\<rparr>"

text \<open>
  How the promise of \<^verbatim>\<open>mcpClient.request\<close> settles, and what the server does: it answers
  (with a response, or with a failure of the transport or of the schema validation) after
  some milliseconds, or it never answers.
\<close>

datatype settle = Resolved json | Rejected thrown

datatype reply = ReplyAt nat settle | NoReply

text \<open>
  Modelled from the spec: the protocol client of the SDK is not part of the sources. When the
  signal passed to \<^verbatim>\<open>request\<close> is aborted, the in-flight call is aborted with the signal's
  reason: the promise rejects with the reason given to \<^verbatim>\<open>abort\<close>.
\<close>

definition clientAborted :: "string \<Rightarrow> settle" where
  "clientAborted reason = Rejected (StrVal reason)"

text \<open>
  Also outside the sources: \<^verbatim>\<open>request\<close> of that client is given the signal only
  (no \<^verbatim>\<open>timeout\<close> option), so the client's own default timeout of 60000 ms stays in
  force. A request not settled by then is rejected by the client itself, with its error of
  code -32001 whose message is \<^verbatim>\<open>MCP error -32001: Request timed out\<close>; the signal of the
  hook is not aborted in that case.
\<close>

definition CLIENT_REQUEST_TIMEOUT_MSEC :: nat where
  "CLIENT_REQUEST_TIMEOUT_MSEC = 60000"

definition clientTimedOut :: settle where
  "clientTimedOut = Rejected (ErrorObj ''MCP error -32001: Request timed out'')"

text \<open>
  \<^verbatim>\<open>setTimeout\<close> keeps its delay in a signed 32-bit integer: a timer asked for 2^31 ms or
  more does not wait that long, it is due at once.
\<close>

definition timerDelay :: "nat \<Rightarrow> nat" where
  "timerDelay ms = (if ms < 2 ^ 31 then ms else 0)"

text \<open>
  The response does not arrive within the timeout window of \<open>ms\<close> milliseconds.
\<close>

definition timedOut :: "nat \<Rightarrow> reply \<Rightarrow> bool" where
  "timedOut ms r = (case r of ReplyAt t s \<Rightarrow> \<not> t < ms | NoReply \<Rightarrow> True)"

text \<open>
  The \<^verbatim>\<open>await\<close> of \<^verbatim>\<open>makeRequest\<close>. Three things can settle the promise, and the
  earliest does: the reply of the server; the timer of the hook, due after \<open>timerDelay ms\<close>,
  whose callback aborts the signal, upon which the client rejects the promise with the
  reason; the timeout of the client itself. A reply settles the promise when it arrives
  before both timers are due. Of the two timers the hook's is armed first, so it is the one
  that fires when it is due no later than the client's.
\<close>

definition inTime :: "nat \<Rightarrow> reply \<Rightarrow> settle option" where
  "inTime ms r =
     (case r of
        ReplyAt t s \<Rightarrow>
          if t < timerDelay ms \<and> t < CLIENT_REQUEST_TIMEOUT_MSEC then Some s else None
      | NoReply \<Rightarrow> None)"

definition awaitRequest :: "nat \<Rightarrow> nat \<Rightarrow> reply \<Rightarrow> world \<Rightarrow> world \<times> settle" where
  "awaitRequest timeoutId ms r w =
     (case inTime ms r of
        Some s \<Rightarrow> (w, s)
      | None \<Rightarrow>
          if timerDelay ms \<le> CLIENT_REQUEST_TIMEOUT_MSEC
          then (abort ''Request timed out'' (fireTimer timeoutId w),
                clientAborted ''Request timed out'')
          else (w, clientTimedOut))"

text \<open>What \<^verbatim>\<open>makeRequest\<close> does before its \<^verbatim>\<open>await\<close>, once the client is there ...\<close>

definition makeRequest_send :: "options \<Rightarrow> json \<Rightarrow> world \<Rightarrow> world \<times> nat" where
  "makeRequest_send opts req w =
     (let (w1, timeoutId) = setTimeout (timeoutOf opts) w
      in (emit (RequestCall req) w1, timeoutId))"

text \<open>... and after it: the inner \<^verbatim>\<open>try/catch/finally\<close> and the outer \<^verbatim>\<open>catch\<close>.\<close>

definition makeRequest_settled ::
    "json \<Rightarrow> nat \<Rightarrow> settle \<Rightarrow> world \<Rightarrow> world \<times> json completion" where
  "makeRequest_settled req timeoutId s w =
     (case s of
        Resolved resp \<Rightarrow>
          (clearTimeout timeoutId (pushHistory req (Some resp) w), Returned resp)
      | Rejected error \<Rightarrow>
          (let errorMessage =
                 (if instanceofError error
                  then (case message error of Some m \<Rightarrow> m | None \<Rightarrow> String_of error)
                  else String_of error);
               w1 = pushHistory req (Some (JObj [(''error'', JStr errorMessage)])) w;
               w2 = clearTimeout timeoutId w1;
               errorString = messageOrString error
           in (toast_error errorString w2, Threw error)))"

definition makeRequest :: "options \<Rightarrow> json \<Rightarrow> reply \<Rightarrow> world \<Rightarrow> world \<times> json completion" where
  "makeRequest opts req r w =
     (case mcpClient w of
        None \<Rightarrow> (w, Threw (ErrorObj ''MCP client not connected''))
      | Some c \<Rightarrow>
          (let (w1, timeoutId) = makeRequest_send opts req w;
               (w2, s) = awaitRequest timeoutId (timeoutOf opts) r w1
           in makeRequest_settled req timeoutId s w2))"

text \<open>
  \<^verbatim>\<open>sendNotification\<close>: the promise of \<^verbatim>\<open>mcpClient.notification\<close> resolves (\<open>None\<close>) or
  rejects with a thrown value.
\<close>

definition sendNotification_settled ::
    "json \<Rightarrow> thrown option \<Rightarrow> world \<Rightarrow> world \<times> unit completion" where
  "sendNotification_settled notification outcome w =
     (case outcome of
        None \<Rightarrow> (pushHistory notification None w, Returned ())
      | Some e \<Rightarrow>
          (toast_error (messageOrString e) w, Threw e))"

definition sendNotification :: "json \<Rightarrow> thrown option \<Rightarrow> world \<Rightarrow> world \<times> unit completion" where
  "sendNotification notification outcome w =
     (case mcpClient w of
        None \<Rightarrow> (w, Threw (ErrorObj ''MCP client not connected''))
      | Some c \<Rightarrow>
          sendNotification_settled notification outcome (emit (NotificationCall notification) w))"

subsection \<open>Session storage and the collaborators of \<^verbatim>\<open>connect\<close>\<close>

definition getItem :: "string \<Rightarrow> world \<Rightarrow> string option" where
  "getItem key w = map_of (sessionStorage w) key"

definition setItem :: "string \<Rightarrow> string \<Rightarrow> world \<Rightarrow> world" where
  "setItem key v w = w\<lparr>sessionStorage := AList.update key v (sessionStorage w)\<rparr>"

definition removeItem :: "string \<Rightarrow> world \<Rightarrow> world" where
  "removeItem key w = w\<lparr>sessionStorage := AList.delete key (sessionStorage w)\<rparr>"

text \<open>The truth value JavaScript gives a string that may be absent: \<^verbatim>\<open>if (token)\<close>.\<close>

definition truthy :: "string option \<Rightarrow> bool" where
  "truthy v = (case v of None \<Rightarrow> False | Some s \<Rightarrow> s \<noteq> [])"

record tokens =
  access_token :: string
  refresh_token :: "string option"

datatype handshake = HandshakeOk "json option" | HandshakeFailed thrown

text \<open>
  What the hook imports and the sources do not hold, taken as parameters: the three keys of
  \<^verbatim>\<open>SESSION_KEYS\<close>, the \<^verbatim>\<open>URL\<close> constructor of the browser (it throws on a string that is
  no URL), the handshake of \<^verbatim>\<open>client.connect\<close> (with the capabilities the server declared,
  if any), and \<^verbatim>\<open>refreshAccessToken\<close> and \<^verbatim>\<open>startOAuthFlow\<close> of \<^verbatim>\<open>../auth\<close>. The three
  calls over the network may answer differently at every attempt, so they take the
  \<^verbatim>\<open>retryCount\<close> of the attempt that makes them.
\<close>

record collaborators =
  ACCESS_TOKEN :: string
  REFRESH_TOKEN :: string
  SERVER_URL :: string
  newURL :: "string \<Rightarrow> thrown + url"
  clientConnect :: "nat \<Rightarrow> string \<Rightarrow> headers \<Rightarrow> handshake"
  refreshAccessToken :: "nat \<Rightarrow> string \<Rightarrow> thrown + tokens"
  startOAuthFlow :: "nat \<Rightarrow> string \<Rightarrow> thrown + string"

subsection \<open>The authorisation flow\<close>

definition initiateOAuthFlow ::
    "collaborators \<Rightarrow> options \<Rightarrow> nat \<Rightarrow> world \<Rightarrow> world \<times> unit completion" where
  "initiateOAuthFlow ext opts attempt w =
     (let w1 = removeItem (ACCESS_TOKEN ext) w;
          w2 = removeItem (REFRESH_TOKEN ext) w1;
          w3 = setItem (SERVER_URL ext) (sseUrl opts) w2;
          w4 = emit (StartOAuthCall (sseUrl opts)) w3
      in case startOAuthFlow ext attempt (sseUrl opts) of
           Inl e \<Rightarrow> (w4, Threw e)
         | Inr redirectUrl \<Rightarrow>
             (emit (Redirect redirectUrl) (w4\<lparr>locationHref := Some redirectUrl\<rparr>), Returned ()))"

definition handleTokenRefresh ::
    "collaborators \<Rightarrow> options \<Rightarrow> nat \<Rightarrow> world \<Rightarrow> world \<times> string completion" where
  "handleTokenRefresh ext opts attempt w =
     (let w0 = emit (RefreshCall (sseUrl opts)) w
      in case refreshAccessToken ext attempt (sseUrl opts) of
           Inr toks \<Rightarrow>
             (let w1 = setItem (ACCESS_TOKEN ext) (access_token toks) w0;
                  w2 = (if truthy (refresh_token toks)
                        then setItem (REFRESH_TOKEN ext)
                               (case refresh_token toks of Some t \<Rightarrow> t | None \<Rightarrow> []) w1
                        else w1)
              in (w2, Returned (access_token toks)))
         | Inl error \<Rightarrow>
             (let w1 = console_error (Some ''Token refresh failed:'') error w0
              in case initiateOAuthFlow ext opts attempt w1 of
                   (w2, Returned u) \<Rightarrow> (w2, Threw error)
                 | (w2, Threw e) \<Rightarrow> (w2, Threw e)))"

definition handleAuthError ::
    "collaborators \<Rightarrow> options \<Rightarrow> nat \<Rightarrow> thrown \<Rightarrow> world \<Rightarrow> world \<times> bool completion" where
  "handleAuthError ext opts attempt error w =
     (if isSse401 error then
        (if truthy (getItem (REFRESH_TOKEN ext) w) then
           (case handleTokenRefresh ext opts attempt w of
              (w1, Returned tok) \<Rightarrow> (w1, Returned True)
            | (w1, Threw e) \<Rightarrow>
                (console_error (Some ''Token refresh failed:'') e w1, Returned False))
         else
           (case initiateOAuthFlow ext opts attempt w of
              (w1, Returned u) \<Rightarrow> (w1, Returned False)
            | (w1, Threw e) \<Rightarrow> (w1, Threw e)))
      else (w, Returned False))"

subsection \<open>\<^verbatim>\<open>connect\<close>\<close>

fun transportName :: "transport \<Rightarrow> string" where
  "transportName Stdio = ''stdio''"
| "transportName Sse = ''sse''"

definition backendUrlOf :: "options \<Rightarrow> url \<Rightarrow> url" where
  "backendUrlOf opts u0 =
     (let u1 = searchParams_append ''transportType'' (transportName (transportType opts)) u0
      in if transportType opts = Stdio then
           (let u2 = searchParams_append ''command'' (command opts) u1;
                u3 = searchParams_append ''args'' (args opts) u2
            in searchParams_append ''env''
                 (stringify (JObj (map (\<lambda>kv. (fst kv, JStr (snd kv))) (env opts)))) u3)
         else searchParams_append ''url'' (sseUrl opts) u1)"

definition authHeaders :: "collaborators \<Rightarrow> world \<Rightarrow> headers" where
  "authHeaders ext w =
     (case getItem (ACCESS_TOKEN ext) w of
        None \<Rightarrow> []
      | Some accessToken \<Rightarrow>
          if accessToken \<noteq> [] then [(''Authorization'', ''Bearer '' @ accessToken)] else [])"

definition newClient :: "options \<Rightarrow> url \<Rightarrow> headers \<Rightarrow> client" where
  "newClient opts backendUrl hdrs =
     \<lparr>transportUrl = href backendUrl,
      transportHeaders = hdrs,
      notificationHandlers =
        (if onNotification opts then [ProgressNotificationSchema] else [])
        @ (if onStdErrNotification opts then [StdErrNotificationSchema] else []),
      requestHandlers = []\<rparr>"

definition connected :: "options \<Rightarrow> client \<Rightarrow> json option \<Rightarrow> world \<Rightarrow> world" where
  "connected opts c capabilities w =
     w\<lparr>serverCapabilities := capabilities,
       mcpClient := Some (c\<lparr>requestHandlers :=
           (if onPendingRequest opts then [CreateMessageRequestSchema] else [])
           @ (if getRoots opts then [ListRootsRequestSchema] else [])\<rparr>),
       connectionStatus := Connected\<rparr>"

text \<open>
  One pass through the \<^verbatim>\<open>try\<close> block of \<^verbatim>\<open>connect\<close>: it falls off its end or returns
  quietly (\<open>TryReturn\<close>), it returns the recursive call (\<open>TryRetry\<close>), or it throws.
\<close>

datatype try_result = TryReturn | TryRetry | TryThrow thrown

definition connect_try ::
    "collaborators \<Rightarrow> options \<Rightarrow> nat \<Rightarrow> world \<Rightarrow> world \<times> try_result" where
  "connect_try ext opts retryCount w =
     (case newURL ext (proxyServerUrl opts @ ''/sse'') of
        Inl e \<Rightarrow> (w, TryThrow e)
      | Inr u0 \<Rightarrow>
          (let backendUrl = backendUrlOf opts u0;
               hdrs = authHeaders ext w;
               c = newClient opts backendUrl hdrs;
               w0 = emit (ConnectCall (href backendUrl) hdrs) w
           in case clientConnect ext retryCount (href backendUrl) hdrs of
                HandshakeFailed error \<Rightarrow>
                  (let w1 = console_error (Some ''Failed to connect to MCP server:'') error w0
                   in case handleAuthError ext opts retryCount error w1 of
                        (w2, Threw e) \<Rightarrow> (w2, TryThrow e)
                      | (w2, Returned shouldRetry) \<Rightarrow>
                          if shouldRetry then (w2, TryRetry)
                          else if isSse401 error then (w2, TryReturn)
                          else (w2, TryThrow error))
              | HandshakeOk capabilities \<Rightarrow> (connected opts c capabilities w0, TryReturn)))"

text \<open>
  \<^verbatim>\<open>connect\<close> itself. The retry has no bound in the source, so the model takes fuel: one
  unit for each pass, and \<open>None\<close> when the passes given do not suffice. The result of the
  recursive call is returned as it is; what the \<^verbatim>\<open>try\<close> block throws goes to the
  \<^verbatim>\<open>catch\<close> at the top.
\<close>

fun connect ::
    "nat \<Rightarrow> collaborators \<Rightarrow> options \<Rightarrow> nat \<Rightarrow> world \<Rightarrow> (world \<times> unit completion) option" where
  "connect 0 ext opts retryCount w = None"
| "connect (Suc fuel) ext opts retryCount w =
     (case connect_try ext opts retryCount w of
        (w1, TryRetry) \<Rightarrow> connect fuel ext opts (retryCount + 1) w1
      | (w1, TryReturn) \<Rightarrow> Some (w1, Returned ())
      | (w1, TryThrow e) \<Rightarrow>
          Some ((console_error None e w1)\<lparr>connectionStatus := Error\<rparr>, Returned ()))"

text \<open>The number of passes after which \<^verbatim>\<open>connect\<close> stops asking for a retry, if at most \<open>n\<close>.\<close>

fun settlesWithin ::
    "nat \<Rightarrow> collaborators \<Rightarrow> options \<Rightarrow> nat \<Rightarrow> world \<Rightarrow> bool" where
  "settlesWithin 0 ext opts retryCount w = False"
| "settlesWithin (Suc n) ext opts retryCount w =
     (case connect_try ext opts retryCount w of
        (w1, TryRetry) \<Rightarrow> settlesWithin n ext opts (retryCount + 1) w1
      | (w1, r) \<Rightarrow> True)"

subsection \<open>Calls in flight\<close>

text \<open>
  Several calls of \<^verbatim>\<open>makeRequest\<close> and \<^verbatim>\<open>sendNotification\<close> can be in flight at once: each
  runs up to its \<^verbatim>\<open>await\<close> when it is issued, and its continuation runs when its promise
  settles. A schedule is the list of these events; calls are numbered as they are issued.
\<close>

datatype pending = PendingRequest json nat | PendingNotification json

record system =
  sysWorld :: world
  inflight :: "(nat \<times> pending) list"
  nextCall :: nat

datatype event =
    CallMakeRequest json
  | CallSendNotification json
  | RequestSettles nat settle
  | TimeoutFires nat
  | NotificationSettles nat "thrown option"

fun step :: "options \<Rightarrow> event \<Rightarrow> system \<Rightarrow> system" where
  "step opts (CallMakeRequest req) s =
     (case mcpClient (sysWorld s) of
        None \<Rightarrow> s\<lparr>nextCall := Suc (nextCall s)\<rparr>
      | Some c \<Rightarrow>
          (let (w1, timeoutId) = makeRequest_send opts req (sysWorld s)
           in s\<lparr>sysWorld := w1,
                inflight := inflight s @ [(nextCall s, PendingRequest req timeoutId)],
                nextCall := Suc (nextCall s)\<rparr>))"
| "step opts (CallSendNotification notification) s =
     (case mcpClient (sysWorld s) of
        None \<Rightarrow> s\<lparr>nextCall := Suc (nextCall s)\<rparr>
      | Some c \<Rightarrow>
          s\<lparr>sysWorld := emit (NotificationCall notification) (sysWorld s),
            inflight := inflight s @ [(nextCall s, PendingNotification notification)],
            nextCall := Suc (nextCall s)\<rparr>)"
| "step opts (RequestSettles cid st) s =
     (case map_of (inflight s) cid of
        Some (PendingRequest req timeoutId) \<Rightarrow>
          s\<lparr>sysWorld := fst (makeRequest_settled req timeoutId st (sysWorld s)),
            inflight := AList.delete cid (inflight s)\<rparr>
      | Some (PendingNotification notification) \<Rightarrow> s
      | None \<Rightarrow> s)"
| "step opts (TimeoutFires cid) s =
     (case map_of (inflight s) cid of
        Some (PendingRequest req timeoutId) \<Rightarrow>
          (let w1 = abort ''Request timed out'' (fireTimer timeoutId (sysWorld s))
           in s\<lparr>sysWorld :=
                  fst (makeRequest_settled req timeoutId (clientAborted ''Request timed out'') w1),
                inflight := AList.delete cid (inflight s)\<rparr>)
      | Some (PendingNotification notification) \<Rightarrow> s
      | None \<Rightarrow> s)"
| "step opts (NotificationSettles cid outcome) s =
     (case map_of (inflight s) cid of
        Some (PendingNotification notification) \<Rightarrow>
          s\<lparr>sysWorld := fst (sendNotification_settled notification outcome (sysWorld s)),
            inflight := AList.delete cid (inflight s)\<rparr>
      | Some (PendingRequest req timeoutId) \<Rightarrow> s
      | None \<Rightarrow> s)"

fun run :: "options \<Rightarrow> event list \<Rightarrow> system \<Rightarrow> system" where
  "run opts [] s = s"
| "run opts (e # es) s = run opts es (step opts e s)"

definition initial :: "world \<Rightarrow> system" where
  "initial w = \<lparr>sysWorld = w, inflight = [], nextCall = 0\<rparr>"

text \<open>
  A schedule is well formed when every settlement is that of a call in flight, of the right
  kind, and every notification is sent successfully.
\<close>

fun enabled :: "event \<Rightarrow> system \<Rightarrow> bool" where
  "enabled (CallMakeRequest req) s = True"
| "enabled (CallSendNotification notification) s = True"
| "enabled (RequestSettles cid st) s =
     (case map_of (inflight s) cid of Some (PendingRequest req timeoutId) \<Rightarrow> True
      | Some (PendingNotification notification) \<Rightarrow> False | None \<Rightarrow> False)"
| "enabled (TimeoutFires cid) s =
     (case map_of (inflight s) cid of Some (PendingRequest req timeoutId) \<Rightarrow> True
      | Some (PendingNotification notification) \<Rightarrow> False | None \<Rightarrow> False)"
| "enabled (NotificationSettles cid outcome) s =
     (case map_of (inflight s) cid of Some (PendingNotification notification) \<Rightarrow> outcome = None
      | Some (PendingRequest req timeoutId) \<Rightarrow> False | None \<Rightarrow> False)"

fun wellFormed :: "options \<Rightarrow> event list \<Rightarrow> system \<Rightarrow> bool" where
  "wellFormed opts [] s = True"
| "wellFormed opts (e # es) s = (enabled e s \<and> wellFormed opts es (step opts e s))"

text \<open>The payloads of the calls a schedule issues, in the order of issue ...\<close>

fun issued :: "event list \<Rightarrow> json list" where
  "issued [] = []"
| "issued (CallMakeRequest req # es) = req # issued es"
| "issued (CallSendNotification notification # es) = notification # issued es"
| "issued (e # es) = issued es"

text \<open>
  ... and the settlements of a schedule, in the order they happen: the number of the call
  and what its history entry holds as the response.
\<close>

fun payload :: "pending \<Rightarrow> json" where
  "payload (PendingRequest req timeoutId) = req"
| "payload (PendingNotification notification) = notification"

definition errorEntry :: "thrown \<Rightarrow> json" where
  "errorEntry e = JObj [(''error'', JStr (messageOrString e))]"

fun settlements :: "event list \<Rightarrow> (nat \<times> json option) list" where
  "settlements [] = []"
| "settlements (RequestSettles cid (Resolved resp) # es) = (cid, Some resp) # settlements es"
| "settlements (RequestSettles cid (Rejected e) # es) =
     (cid, Some (errorEntry e)) # settlements es"
| "settlements (TimeoutFires cid # es) =
     (cid, Some (errorEntry (StrVal ''Request timed out''))) # settlements es"
| "settlements (NotificationSettles cid outcome # es) = (cid, None) # settlements es"
| "settlements (e # es) = settlements es"

definition entryOf :: "json list \<Rightarrow> nat \<times> json option \<Rightarrow> history_entry" where
  "entryOf calls st =
     \<lparr>request = stringify (calls ! fst st),
      response = (case snd st of None \<Rightarrow> None | Some r \<Rightarrow> Some (stringify r))\<rparr>"

subsection \<open>Concrete worlds, options and collaborators\<close>

definition freshWorld :: world where
  "freshWorld =
     \<lparr>connectionStatus = Disconnected, serverCapabilities = None, mcpClient = None,
      requestHistory = [], sessionStorage = [], timers = [], nextTimerId = 0,
      locationHref = None, trace = []\<rparr>"

definition echoOptions :: options where
  "echoOptions =
     \<lparr>transportType = Stdio, command = ''echo'', args = ''hello'', sseUrl = ''http://mcp.test/sse'',
      env = [], proxyServerUrl = ''http://localhost:3000'', requestTimeout = None,
      onNotification = True, onStdErrNotification = True, onPendingRequest = True,
      getRoots = True\<rparr>"

text \<open>The same options with a timeout window of five seconds.\<close>

definition quickOptions :: options where
  "quickOptions = echoOptions\<lparr>requestTimeout := Some 5000\<rparr>"

definition echoClient :: client where
  "echoClient =
     \<lparr>transportUrl = ''http://localhost:3000/sse'', transportHeaders = [],
      notificationHandlers = [], requestHandlers = []\<rparr>"

definition liveWorld :: world where
  "liveWorld = freshWorld\<lparr>connectionStatus := Connected, mcpClient := Some echoClient\<rparr>"

definition pingRequest :: json where
  "pingRequest = JObj [(''method'', JStr ''ping'')]"

definition listRequest :: json where
  "listRequest = JObj [(''method'', JStr ''tools/list'')]"

definition sseOptions :: options where
  "sseOptions = echoOptions\<lparr>transportType := Sse\<rparr>"

definition plainURL :: "string \<Rightarrow> thrown + url" where
  "plainURL s =
     (if s = [] then Inl (ErrorObj ''Invalid URL'')
      else Inr \<lparr>urlBase = s, searchParams = [], urlFragment = []\<rparr>)"

definition toolsCapabilities :: json where
  "toolsCapabilities = JObj [(''tools'', JObj [])]"

text \<open>
  A server that wants the bearer token \<^verbatim>\<open>fresh\<close> and answers 401 to everything else; the
  token endpoint hands out that token, with no new refresh token.
\<close>

definition authServer :: collaborators where
  "authServer =
     \<lparr>ACCESS_TOKEN = ''mcp_access_token'', REFRESH_TOKEN = ''mcp_refresh_token'',
      SERVER_URL = ''mcp_server_url'',
      newURL = plainURL,
      clientConnect = (\<lambda>attempt u hdrs.
         if hdrs = [(''Authorization'', ''Bearer fresh'')] then HandshakeOk (Some toolsCapabilities)
         else HandshakeFailed (SseError (Some 401) ''Unauthorized'')),
      refreshAccessToken = (\<lambda>attempt u. Inr \<lparr>access_token = ''fresh'', refresh_token = None\<rparr>),
      startOAuthFlow = (\<lambda>attempt u. Inr ''http://auth.test/authorize'')\<rparr>"

text \<open>The same, when the authorisation server cannot be reached ...\<close>

definition brokenAuth :: collaborators where
  "brokenAuth = authServer\<lparr>startOAuthFlow := (\<lambda>attempt u. Inl (ErrorObj ''Failed to fetch''))\<rparr>"

text \<open>... and a server that needs no token, or that is down.\<close>

definition openServer :: collaborators where
  "openServer =
     authServer\<lparr>clientConnect := (\<lambda>attempt u hdrs. HandshakeOk (Some toolsCapabilities))\<rparr>"

definition downServer :: collaborators where
  "downServer =
     authServer\<lparr>clientConnect :=
       (\<lambda>attempt u hdrs. HandshakeFailed (SseError (Some 503) ''Service Unavailable''))\<rparr>"

text \<open>A browser session that holds an expired access token and a refresh token.\<close>

definition staleWorld :: world where
  "staleWorld =
     freshWorld\<lparr>sessionStorage :=
       [(''mcp_access_token'', ''stale''), (''mcp_refresh_token'', ''r1'')]\<rparr>"

section \<open>Properties\<close>

subsection \<open>Projections of the primitive steps\<close>

lemma toasts_append: "toasts (xs @ ys) = toasts xs @ toasts ys"
  by (induction xs rule: toasts.induct) simp_all

lemma emit_fields:
  "trace (emit e w) = trace w @ [e]"
  "timers (emit e w) = timers w"
  "nextTimerId (emit e w) = nextTimerId w"
  "requestHistory (emit e w) = requestHistory w"
  "mcpClient (emit e w) = mcpClient w"
  "connectionStatus (emit e w) = connectionStatus w"
  "serverCapabilities (emit e w) = serverCapabilities w"
  "sessionStorage (emit e w) = sessionStorage w"
  "locationHref (emit e w) = locationHref w"
  by (simp_all add: emit_def)

lemma pushHistory_fields:
  "trace (pushHistory q p w) = trace w"
  "timers (pushHistory q p w) = timers w"
  "nextTimerId (pushHistory q p w) = nextTimerId w"
  "mcpClient (pushHistory q p w) = mcpClient w"
  "requestHistory (pushHistory q p w) = requestHistory w @
     [\<lparr>request = stringify q,
       response = (case p of None \<Rightarrow> None | Some r \<Rightarrow> Some (stringify r))\<rparr>]"
  by (simp_all add: pushHistory_def)

lemma clearTimeout_fields:
  "trace (clearTimeout t w) = trace w @ [ClearTimeout t]"
  "timers (clearTimeout t w) = removeAll t (timers w)"
  "nextTimerId (clearTimeout t w) = nextTimerId w"
  "requestHistory (clearTimeout t w) = requestHistory w"
  "mcpClient (clearTimeout t w) = mcpClient w"
  by (simp_all add: clearTimeout_def emit_fields)

lemma fireTimer_fields:
  "trace (fireTimer t w) = trace w @ [TimerFired t]"
  "timers (fireTimer t w) = removeAll t (timers w)"
  "nextTimerId (fireTimer t w) = nextTimerId w"
  "requestHistory (fireTimer t w) = requestHistory w"
  "mcpClient (fireTimer t w) = mcpClient w"
  by (simp_all add: fireTimer_def emit_fields)

lemma setTimeout_fields:
  "snd (setTimeout ms w) = nextTimerId w"
  "trace (fst (setTimeout ms w)) = trace w @ [SetTimeout (nextTimerId w) ms]"
  "timers (fst (setTimeout ms w)) = timers w @ [nextTimerId w]"
  "nextTimerId (fst (setTimeout ms w)) = Suc (nextTimerId w)"
  "requestHistory (fst (setTimeout ms w)) = requestHistory w"
  "mcpClient (fst (setTimeout ms w)) = mcpClient w"
  by (simp_all add: setTimeout_def emit_fields)

lemmas gateway_fields = emit_fields pushHistory_fields clearTimeout_fields fireTimer_fields
  setTimeout_fields abort_def toast_error_def

lemma makeRequest_send_fields:
  "snd (makeRequest_send opts req w) = nextTimerId w"
  "trace (fst (makeRequest_send opts req w)) =
     trace w @ [SetTimeout (nextTimerId w) (timeoutOf opts), RequestCall req]"
  "timers (fst (makeRequest_send opts req w)) = timers w @ [nextTimerId w]"
  "requestHistory (fst (makeRequest_send opts req w)) = requestHistory w"
  "mcpClient (fst (makeRequest_send opts req w)) = mcpClient w"
  by (simp_all add: makeRequest_send_def split_beta gateway_fields)

lemma timerDelay_le: "timerDelay ms \<le> ms"
  by (simp add: timerDelay_def)

lemma inTime_timedOut: "timedOut ms r \<Longrightarrow> inTime ms r = None"
proof (cases r)
  case (ReplyAt t s)
  assume "timedOut ms r"
  with ReplyAt have "\<not> t < ms" by (simp add: timedOut_def)
  with timerDelay_le [of ms] have "\<not> t < timerDelay ms" by simp
  with ReplyAt show ?thesis by (simp add: inTime_def)
next
  case NoReply
  then show ?thesis by (simp add: inTime_def)
qed

lemma awaitRequest_hookTimer:
  "timedOut ms r \<Longrightarrow> timerDelay ms \<le> CLIENT_REQUEST_TIMEOUT_MSEC \<Longrightarrow>
     awaitRequest t ms r w =
       (abort ''Request timed out'' (fireTimer t w), Rejected (StrVal ''Request timed out''))"
  by (simp add: awaitRequest_def inTime_timedOut clientAborted_def)

lemma awaitRequest_clientTimer:
  "timedOut ms r \<Longrightarrow> \<not> timerDelay ms \<le> CLIENT_REQUEST_TIMEOUT_MSEC \<Longrightarrow>
     awaitRequest t ms r w = (w, Rejected (ErrorObj ''MCP error -32001: Request timed out''))"
  by (simp add: awaitRequest_def inTime_timedOut clientTimedOut_def)

lemma awaitRequest_inTime:
  "t < timerDelay ms \<Longrightarrow> t < CLIENT_REQUEST_TIMEOUT_MSEC \<Longrightarrow>
     awaitRequest tid ms (ReplyAt t s) w = (w, s)"
  by (simp add: awaitRequest_def inTime_def)

lemma awaitRequest_cases:
  "awaitRequest tid ms r w =
       (abort ''Request timed out'' (fireTimer tid w), Rejected (StrVal ''Request timed out''))
   \<or> (\<exists>s. awaitRequest tid ms r w = (w, s))"
  by (cases "inTime ms r") (simp_all add: awaitRequest_def clientAborted_def)

lemma makeRequest_connected:
  "mcpClient w = Some c \<Longrightarrow>
     makeRequest opts req r w =
       makeRequest_settled req (nextTimerId w)
         (snd (awaitRequest (nextTimerId w) (timeoutOf opts) r (fst (makeRequest_send opts req w))))
         (fst (awaitRequest (nextTimerId w) (timeoutOf opts) r (fst (makeRequest_send opts req w))))"
  by (simp add: makeRequest_def split_beta makeRequest_send_fields)

lemma makeRequest_settled_Resolved:
  "makeRequest_settled req tid (Resolved resp) w =
     (clearTimeout tid (pushHistory req (Some resp) w), Returned resp)"
  by (simp add: makeRequest_settled_def)

lemma errorMessage_eq:
  "(if instanceofError e then (case message e of Some m \<Rightarrow> m | None \<Rightarrow> String_of e)
    else String_of e) = messageOrString e"
  by (cases e) (simp_all add: messageOrString_def)

lemma makeRequest_settled_Rejected:
  "makeRequest_settled req tid (Rejected e) w =
     (toast_error (messageOrString e)
        (clearTimeout tid (pushHistory req (Some (errorEntry e)) w)), Threw e)"
  by (simp add: makeRequest_settled_def errorMessage_eq errorEntry_def Let_def)

subsection \<open>The request gateway\<close>

text \<open>
  C5. A call of \<^verbatim>\<open>makeRequest\<close> while no client is published fails at once with the
  not-connected error. The world is left as it was: nothing is sent over the network (the
  trace is unchanged) and no timer is created.
\<close>

theorem makeRequest_not_connected:
  "mcpClient w = None \<Longrightarrow>
     makeRequest opts req r w = (w, Threw (ErrorObj ''MCP client not connected''))"
  by (simp add: makeRequest_def)

theorem makeRequest_not_connected_witness:
  "mcpClient freshWorld = None \<and>
   makeRequest echoOptions pingRequest NoReply freshWorld =
     (freshWorld, Threw (ErrorObj ''MCP client not connected'')) \<and>
   trace freshWorld = [] \<and> timers freshWorld = []"
  using makeRequest_not_connected [of freshWorld echoOptions pingRequest NoReply]
  by (simp add: freshWorld_def)




text \<open>
  C9. A call of \<^verbatim>\<open>makeRequest\<close> that reaches the sending stage arms one timer (the first
  thing it does) and, however the call settles (a response, an error, or the timeout), the
  timer is cleared: it is not among the armed timers afterwards, and no other timer is
  touched.
\<close>

theorem makeRequest_clears_timer:
  assumes "mcpClient w = Some c" and "makeRequest opts req r w = (w', res)"
  shows "timers w' = removeAll (nextTimerId w) (timers w)
     \<and> nextTimerId w \<notin> set (timers w')
     \<and> trace w' ! length (trace w) = SetTimeout (nextTimerId w) (timeoutOf opts)
     \<and> ClearTimeout (nextTimerId w) \<in> set (trace w')"
proof -
  let ?w1 = "fst (makeRequest_send opts req w)"
  let ?tid = "nextTimerId w"
  let ?ms = "timeoutOf opts"
  from awaitRequest_cases [of ?tid ?ms r ?w1]
  consider (late) "awaitRequest ?tid ?ms r ?w1 =
        (abort ''Request timed out'' (fireTimer ?tid ?w1), Rejected (StrVal ''Request timed out''))"
    | (intime) s where "awaitRequest ?tid ?ms r ?w1 = (?w1, s)"
    by blast
  then show ?thesis
  proof cases
    case late
    with assms have "w' = toast_error (messageOrString (StrVal ''Request timed out''))
        (clearTimeout ?tid (pushHistory req (Some (errorEntry (StrVal ''Request timed out'')))
           (abort ''Request timed out'' (fireTimer ?tid ?w1))))"
      by (simp add: makeRequest_connected makeRequest_settled_Rejected)
    then show ?thesis
      by (simp add: gateway_fields makeRequest_send_fields nth_append)
  next
    case intime
    show ?thesis
    proof (cases s)
      case (Resolved resp)
      with intime assms have "w' = clearTimeout ?tid (pushHistory req (Some resp) ?w1)"
        by (simp add: makeRequest_connected makeRequest_settled_Resolved)
      then show ?thesis
        by (simp add: gateway_fields makeRequest_send_fields nth_append)
    next
      case (Rejected e)
      with intime assms have "w' = toast_error (messageOrString e)
          (clearTimeout ?tid (pushHistory req (Some (errorEntry e)) ?w1))"
        by (simp add: makeRequest_connected makeRequest_settled_Rejected)
      then show ?thesis
        by (simp add: gateway_fields makeRequest_send_fields nth_append)
    qed
  qed
qed

theorem makeRequest_clears_timer_witness:
  "mcpClient liveWorld = Some echoClient \<and>
   timers (fst (makeRequest echoOptions pingRequest (ReplyAt 5 (Resolved JNull)) liveWorld)) = [] \<and>
   ClearTimeout 0 \<in> set (trace (fst (makeRequest echoOptions pingRequest (ReplyAt 5 (Resolved JNull)) liveWorld)))"
proof -
  have c: "mcpClient liveWorld = Some echoClient" by (simp add: liveWorld_def)
  have h: "timers liveWorld = []" "nextTimerId liveWorld = 0"
    by (simp_all add: liveWorld_def freshWorld_def)
  show ?thesis
    using makeRequest_clears_timer [OF c surjective_pairing,
        of echoOptions pingRequest "ReplyAt 5 (Resolved JNull)"] c h
    by simp
qed

text \<open>
  C6, as the code has it. A call of \<^verbatim>\<open>makeRequest\<close> on an established session that fails
  (the promise of the request rejects: a transport error, a schema-validation error, or a
  timeout) sends the message of the error to the toast channel, once, and raises that same
  error to the caller. A rejection that arrives before the timers are due is the error
  raised, and a request left unanswered for the whole window always fails. The not-connected failure is raised before the
  \<^verbatim>\<open>try\<close> block: it reaches the caller with no toast.
\<close>

theorem makeRequest_failure_toast:
  "(mcpClient w = Some c \<longrightarrow> makeRequest opts req r w = (w', Threw e) \<longrightarrow>
      toasts (trace w') = toasts (trace w) @ [messageOrString e])
   \<and> (mcpClient w = Some c \<longrightarrow>
        t < timerDelay (timeoutOf opts) \<longrightarrow> t < CLIENT_REQUEST_TIMEOUT_MSEC \<longrightarrow>
        snd (makeRequest opts req (ReplyAt t (Rejected e)) w) = Threw e)
   \<and> (mcpClient w = Some c \<longrightarrow> timedOut (timeoutOf opts) r \<longrightarrow>
        (\<exists>x. snd (makeRequest opts req r w) = Threw x)
        \<and> (timerDelay (timeoutOf opts) \<le> CLIENT_REQUEST_TIMEOUT_MSEC \<longrightarrow>
             snd (makeRequest opts req r w) = Threw (StrVal ''Request timed out'')))
   \<and> (mcpClient w = None \<longrightarrow>
        makeRequest opts req r w = (w, Threw (ErrorObj ''MCP client not connected'')))"
proof (intro conjI impI)
  assume c: "mcpClient w = Some c" and m: "makeRequest opts req r w = (w', Threw e)"
  let ?w1 = "fst (makeRequest_send opts req w)"
  let ?tid = "nextTimerId w"
  let ?ms = "timeoutOf opts"
  from awaitRequest_cases [of ?tid ?ms r ?w1]
  consider (late) "awaitRequest ?tid ?ms r ?w1 =
        (abort ''Request timed out'' (fireTimer ?tid ?w1), Rejected (StrVal ''Request timed out''))"
    | (intime) s where "awaitRequest ?tid ?ms r ?w1 = (?w1, s)"
    by blast
  then show "toasts (trace w') = toasts (trace w) @ [messageOrString e]"
  proof cases
    case late
    with c m have "e = StrVal ''Request timed out''" and
      "w' = toast_error (messageOrString e)
        (clearTimeout ?tid (pushHistory req (Some (errorEntry e))
           (abort ''Request timed out'' (fireTimer ?tid ?w1))))"
      by (auto simp: makeRequest_connected makeRequest_settled_Rejected)
    then show ?thesis
      by (simp add: gateway_fields makeRequest_send_fields toasts_append)
  next
    case intime
    show ?thesis
    proof (cases s)
      case (Resolved resp)
      with intime c m show ?thesis
        by (simp add: makeRequest_connected makeRequest_settled_Resolved)
    next
      case (Rejected e')
      with intime c m have "e' = e" and "w' = toast_error (messageOrString e)
          (clearTimeout ?tid (pushHistory req (Some (errorEntry e)) ?w1))"
        by (auto simp: makeRequest_connected makeRequest_settled_Rejected)
      then show ?thesis
        by (simp add: gateway_fields makeRequest_send_fields toasts_append)
    qed
  qed
next
  assume "mcpClient w = Some c" and "t < timerDelay (timeoutOf opts)"
    and "t < CLIENT_REQUEST_TIMEOUT_MSEC"
  then show "snd (makeRequest opts req (ReplyAt t (Rejected e)) w) = Threw e"
    by (simp add: makeRequest_connected awaitRequest_inTime makeRequest_settled_Rejected)
next
  assume "mcpClient w = Some c" and "timedOut (timeoutOf opts) r"
  then show "\<exists>x. snd (makeRequest opts req r w) = Threw x"
    by (cases "timerDelay (timeoutOf opts) \<le> CLIENT_REQUEST_TIMEOUT_MSEC")
       (simp_all add: makeRequest_connected awaitRequest_hookTimer awaitRequest_clientTimer
          makeRequest_settled_Rejected)
next
  assume "mcpClient w = Some c" and "timedOut (timeoutOf opts) r"
    and "timerDelay (timeoutOf opts) \<le> CLIENT_REQUEST_TIMEOUT_MSEC"
  then show "snd (makeRequest opts req r w) = Threw (StrVal ''Request timed out'')"
    by (simp add: makeRequest_connected awaitRequest_hookTimer makeRequest_settled_Rejected)
next
  assume "mcpClient w = None"
  then show "makeRequest opts req r w = (w, Threw (ErrorObj ''MCP client not connected''))"
    by (simp add: makeRequest_def)
qed

theorem makeRequest_failure_toast_witness:
  "mcpClient liveWorld = Some echoClient \<and> (7::nat) < timerDelay (timeoutOf echoOptions) \<and>
   (7::nat) < CLIENT_REQUEST_TIMEOUT_MSEC \<and>
   timedOut (timeoutOf quickOptions) NoReply \<and>
   timerDelay (timeoutOf quickOptions) \<le> CLIENT_REQUEST_TIMEOUT_MSEC \<and>
   mcpClient freshWorld = None \<and>
   snd (makeRequest echoOptions pingRequest (ReplyAt 7 (Rejected (ErrorObj ''Connection closed''))) liveWorld)
     = Threw (ErrorObj ''Connection closed'') \<and>
   toasts (trace (fst (makeRequest echoOptions pingRequest
       (ReplyAt 7 (Rejected (ErrorObj ''Connection closed''))) liveWorld))) = [''Connection closed''] \<and>
   snd (makeRequest quickOptions pingRequest NoReply liveWorld) = Threw (StrVal ''Request timed out'') \<and>
   makeRequest echoOptions pingRequest NoReply freshWorld =
     (freshWorld, Threw (ErrorObj ''MCP client not connected''))"
proof -
  let ?r = "ReplyAt 7 (Rejected (ErrorObj ''Connection closed''))"
  have c: "mcpClient liveWorld = Some echoClient" by (simp add: liveWorld_def)
  have n: "mcpClient freshWorld = None" by (simp add: freshWorld_def)
  have t: "(7::nat) < timerDelay (timeoutOf echoOptions)"
    by (simp add: timerDelay_def timeoutOf_def echoOptions_def DEFAULT_REQUEST_TIMEOUT_MSEC_def)
  have t': "(7::nat) < CLIENT_REQUEST_TIMEOUT_MSEC"
    by (simp add: CLIENT_REQUEST_TIMEOUT_MSEC_def)
  have o: "timedOut (timeoutOf quickOptions) NoReply" by (simp add: timedOut_def)
  have d: "timerDelay (timeoutOf quickOptions) \<le> CLIENT_REQUEST_TIMEOUT_MSEC"
    by (simp add: timerDelay_def timeoutOf_def quickOptions_def CLIENT_REQUEST_TIMEOUT_MSEC_def)
  have tr: "trace liveWorld = []" by (simp add: liveWorld_def freshWorld_def)
  have thrown: "snd (makeRequest echoOptions pingRequest ?r liveWorld) = Threw (ErrorObj ''Connection closed'')"
    using makeRequest_failure_toast [of liveWorld echoClient echoOptions pingRequest ?r _ _ 7] c t t'
    by blast
  have "makeRequest echoOptions pingRequest ?r liveWorld =
      (fst (makeRequest echoOptions pingRequest ?r liveWorld), Threw (ErrorObj ''Connection closed''))"
    using thrown by (simp add: prod_eq_iff)
  then have toast: "toasts (trace (fst (makeRequest echoOptions pingRequest ?r liveWorld))) = [''Connection closed'']"
    using makeRequest_failure_toast [of liveWorld echoClient echoOptions pingRequest ?r
        "fst (makeRequest echoOptions pingRequest ?r liveWorld)" "ErrorObj ''Connection closed''"] c tr
    by (simp add: messageOrString_def)
  have late: "snd (makeRequest quickOptions pingRequest NoReply liveWorld) = Threw (StrVal ''Request timed out'')"
    using makeRequest_failure_toast [of liveWorld echoClient quickOptions pingRequest NoReply] c o d
    by blast
  have off: "makeRequest echoOptions pingRequest NoReply freshWorld =
     (freshWorld, Threw (ErrorObj ''MCP client not connected''))"
    using makeRequest_failure_toast [of freshWorld _ echoOptions pingRequest NoReply] n
    by blast
  show ?thesis using c n t t' o d thrown toast late off by simp
qed

text \<open>
  C6 as stated fails: the not-connected failure of \<^verbatim>\<open>makeRequest\<close> sends nothing to the
  toast channel.
\<close>

theorem makeRequest_not_connected_no_toast:
  "snd (makeRequest echoOptions pingRequest NoReply freshWorld)
     = Threw (ErrorObj ''MCP client not connected'')
   \<and> toasts (trace (fst (makeRequest echoOptions pingRequest NoReply freshWorld))) = []"
  by (simp add: makeRequest_def freshWorld_def)

subsection \<open>Session storage and the passes of \<^verbatim>\<open>connect\<close>\<close>


lemma setItem_fields:
  "getItem k (setItem k' v w) = (if k = k' then Some v else getItem k w)"
  "trace (setItem k' v w) = trace w"
  "connectionStatus (setItem k' v w) = connectionStatus w"
  "locationHref (setItem k' v w) = locationHref w"
  by (simp_all add: getItem_def setItem_def update_conv')

lemma removeItem_fields:
  "getItem k (removeItem k' w) = (if k = k' then None else getItem k w)"
  "trace (removeItem k' w) = trace w"
  "connectionStatus (removeItem k' w) = connectionStatus w"
  "locationHref (removeItem k' w) = locationHref w"
  by (simp_all add: getItem_def removeItem_def delete_conv')

lemma getItem_emit: "getItem k (emit e w) = getItem k w"
  by (simp add: getItem_def emit_def)

lemma getItem_locationHref: "getItem k (w\<lparr>locationHref := h\<rparr>) = getItem k w"
  by (simp add: getItem_def)

lemma getItem_connectionStatus: "getItem k (w\<lparr>connectionStatus := st\<rparr>) = getItem k w"
  by (simp add: getItem_def)

lemmas storage_fields = setItem_fields removeItem_fields getItem_emit getItem_locationHref
  getItem_connectionStatus
  emit_fields console_error_def

lemma initiateOAuthFlow_Inr:
  "startOAuthFlow ext attempt (sseUrl opts) = Inr redirectUrl \<Longrightarrow>
   initiateOAuthFlow ext opts attempt w =
     (emit (Redirect redirectUrl)
        ((emit (StartOAuthCall (sseUrl opts))
           (setItem (SERVER_URL ext) (sseUrl opts)
              (removeItem (REFRESH_TOKEN ext) (removeItem (ACCESS_TOKEN ext) w))))
         \<lparr>locationHref := Some redirectUrl\<rparr>), Returned ())"
  by (simp add: initiateOAuthFlow_def Let_def)

lemma initiateOAuthFlow_Inl:
  "startOAuthFlow ext attempt (sseUrl opts) = Inl e \<Longrightarrow>
   initiateOAuthFlow ext opts attempt w =
     (emit (StartOAuthCall (sseUrl opts))
        (setItem (SERVER_URL ext) (sseUrl opts)
           (removeItem (REFRESH_TOKEN ext) (removeItem (ACCESS_TOKEN ext) w))), Threw e)"
  by (simp add: initiateOAuthFlow_def Let_def)

lemma handleTokenRefresh_Inr:
  "refreshAccessToken ext attempt (sseUrl opts) = Inr toks \<Longrightarrow>
   handleTokenRefresh ext opts attempt w =
     ((if truthy (refresh_token toks)
       then setItem (REFRESH_TOKEN ext) (case refresh_token toks of Some t \<Rightarrow> t | None \<Rightarrow> [])
              (setItem (ACCESS_TOKEN ext) (access_token toks) (emit (RefreshCall (sseUrl opts)) w))
       else setItem (ACCESS_TOKEN ext) (access_token toks) (emit (RefreshCall (sseUrl opts)) w)),
      Returned (access_token toks))"
  by (simp add: handleTokenRefresh_def Let_def)

lemma truthy_Some: "truthy v \<Longrightarrow> Some (case v of Some t \<Rightarrow> t | None \<Rightarrow> []) = v"
  by (cases v) (simp_all add: truthy_def)



lemma handleAuthError_other:
  "\<not> isSse401 error \<Longrightarrow> handleAuthError ext opts attempt error w = (w, Returned False)"
  by (simp add: handleAuthError_def)


lemma handleAuthError_redirect:
  "isSse401 error \<Longrightarrow> \<not> truthy (getItem (REFRESH_TOKEN ext) w) \<Longrightarrow>
   handleAuthError ext opts attempt error w =
     (fst (initiateOAuthFlow ext opts attempt w),
      case snd (initiateOAuthFlow ext opts attempt w) of
        Returned u \<Rightarrow> Returned False | Threw e \<Rightarrow> Threw e)"
  by (simp add: handleAuthError_def split: prod.splits completion.splits)

lemma trace_locationHref: "trace (w\<lparr>locationHref := h\<rparr>) = trace w"
  by simp






lemma connect_try_badURL:
  "newURL ext (proxyServerUrl opts @ ''/sse'') = Inl e \<Longrightarrow>
   connect_try ext opts retryCount w = (w, TryThrow e)"
  by (simp add: connect_try_def)

lemma connect_try_ok:
  "newURL ext (proxyServerUrl opts @ ''/sse'') = Inr u0 \<Longrightarrow>
   clientConnect ext retryCount (href (backendUrlOf opts u0)) (authHeaders ext w) =
     HandshakeOk capabilities \<Longrightarrow>
   connect_try ext opts retryCount w =
     (connected opts (newClient opts (backendUrlOf opts u0) (authHeaders ext w)) capabilities
        (emit (ConnectCall (href (backendUrlOf opts u0)) (authHeaders ext w)) w), TryReturn)"
  by (simp add: connect_try_def Let_def)

lemma connect_try_failed:
  "newURL ext (proxyServerUrl opts @ ''/sse'') = Inr u0 \<Longrightarrow>
   clientConnect ext retryCount (href (backendUrlOf opts u0)) (authHeaders ext w) =
     HandshakeFailed error \<Longrightarrow>
   connect_try ext opts retryCount w =
     (case handleAuthError ext opts retryCount error
             (console_error (Some ''Failed to connect to MCP server:'') error
                (emit (ConnectCall (href (backendUrlOf opts u0)) (authHeaders ext w)) w)) of
        (w2, Threw e) \<Rightarrow> (w2, TryThrow e)
      | (w2, Returned shouldRetry) \<Rightarrow>
          if shouldRetry then (w2, TryRetry)
          else if isSse401 error then (w2, TryReturn)
          else (w2, TryThrow error))"
  by (simp add: connect_try_def Let_def)



lemma authServer_url:
  "newURL authServer (proxyServerUrl sseOptions @ ''/sse'') =
     Inr \<lparr>urlBase = ''http://localhost:3000/sse'', searchParams = [], urlFragment = []\<rparr>"
  by (simp add: authServer_def plainURL_def sseOptions_def echoOptions_def)


lemma connect_returns:
  "connect fuel ext opts retryCount w = Some (w', res) \<Longrightarrow> res = Returned ()"
proof (induction fuel arbitrary: retryCount w)
  case 0
  then show ?case by simp
next
  case (Suc fuel)
  obtain w1 r where t: "connect_try ext opts retryCount w = (w1, r)" by fastforce
  show ?case
  proof (cases r)
    case TryRetry
    with Suc.prems t have "connect fuel ext opts (retryCount + 1) w1 = Some (w', res)" by simp
    then show ?thesis by (rule Suc.IH)
  next
    case TryReturn
    with Suc.prems t show ?thesis by simp
  next
    case (TryThrow e)
    with Suc.prems t show ?thesis by simp
  qed
qed

lemma connect_catches:
  "connect_try ext opts retryCount w = (w1, TryThrow e) \<Longrightarrow>
   connect (Suc fuel) ext opts retryCount w =
     Some ((console_error None e w1)\<lparr>connectionStatus := Error\<rparr>, Returned ())"
  by simp

lemma connect_settles:
  "settlesWithin n ext opts retryCount w \<Longrightarrow>
   \<exists>w'. connect (n + fuel) ext opts retryCount w = Some (w', Returned ())"
proof (induction n arbitrary: retryCount w)
  case 0
  then show ?case by simp
next
  case (Suc n)
  obtain w1 r where t: "connect_try ext opts retryCount w = (w1, r)" by fastforce
  show ?case
  proof (cases r)
    case TryRetry
    with Suc.prems t have "settlesWithin n ext opts (retryCount + 1) w1" by simp
    then have "\<exists>w'. connect (n + fuel) ext opts (retryCount + 1) w1 = Some (w', Returned ())"
      by (rule Suc.IH)
    with t TryRetry show ?thesis by simp
  next
    case TryReturn
    with t show ?thesis by simp
  next
    case (TryThrow e)
    with t show ?thesis by simp
  qed
qed

lemma connect_try_other_failure:
  assumes "newURL ext (proxyServerUrl opts @ ''/sse'') = Inr u0"
    and "clientConnect ext retryCount (href (backendUrlOf opts u0)) (authHeaders ext w) =
        HandshakeFailed error"
    and "\<not> isSse401 error"
  shows "connect_try ext opts retryCount w =
     (console_error (Some ''Failed to connect to MCP server:'') error
        (emit (ConnectCall (href (backendUrlOf opts u0)) (authHeaders ext w)) w), TryThrow error)"
  using assms by (simp add: connect_try_failed handleAuthError_other)

lemma downServer_try:
  "connect_try downServer sseOptions 0 freshWorld =
    (console_error (Some ''Failed to connect to MCP server:'') (SseError (Some 503) ''Service Unavailable'')
      (emit (ConnectCall ''http://localhost:3000/sse?transportType=sse&url=http%3A%2F%2Fmcp.test%2Fsse'' []) freshWorld),
     TryThrow (SseError (Some 503) ''Service Unavailable''))"
  by code_simp

lemma join_append:
  "xs \<noteq> [] \<Longrightarrow> ys \<noteq> [] \<Longrightarrow> join sep (xs @ ys) = join sep xs @ sep @ join sep ys"
proof (induction sep xs rule: join.induct)
  case (1 sep)
  then show ?case by simp
next
  case (2 sep x)
  then show ?case by (cases ys) simp_all
next
  case (3 sep x y ys')
  then show ?case by simp
qed

lemma serializeParams_append:
  "serializeParams (ps @ qs) =
     (if ps = [] then serializeParams qs
      else if qs = [] then serializeParams ps
      else serializeParams ps @ ''&'' @ serializeParams qs)"
  by (simp add: serializeParams_def join_append)

lemma echo_query:
  "serializeParams [(''transportType'', ''stdio''), (''command'', ''echo''),
      (''args'', ''hello''), (''env'', ''{}'')] =
   ''transportType=stdio&command=echo&args=hello&env=%7B%7D''"
  by code_simp

lemma backendUrlOf_stdio:
  "transportType opts = Stdio \<Longrightarrow>
   backendUrlOf opts u0 =
     u0\<lparr>searchParams := searchParams u0 @
        [(''transportType'', transportName Stdio), (''command'', command opts),
         (''args'', args opts),
         (''env'', stringify (JObj (map (\<lambda>kv. (fst kv, JStr (snd kv))) (env opts))))]\<rparr>"
  by (simp add: backendUrlOf_def searchParams_append_def Let_def)

lemma echo_href:
  assumes "transportType opts = Stdio" "command opts = ''echo''" "args opts = ''hello''"
    "env opts = []"
  shows "sublist ''transportType=stdio&command=echo&args=hello&env=%7B%7D''
           (href (backendUrlOf opts u0))"
proof -
  let ?q = "''transportType=stdio&command=echo&args=hello&env=%7B%7D''"
  let ?new = "[(''transportType'', ''stdio''), (''command'', ''echo''),
      (''args'', ''hello''), (''env'', ''{}'')]"
  have u: "backendUrlOf opts u0 = u0\<lparr>searchParams := searchParams u0 @ ?new\<rparr>"
    using assms by (simp add: backendUrlOf_stdio)
  have "\<exists>pre. serializeParams (searchParams u0 @ ?new) = pre @ ?q"
  proof (cases "searchParams u0 = []")
    case True
    then have "serializeParams (searchParams u0 @ ?new) = [] @ ?q"
      by (simp only: append_Nil echo_query)
    then show ?thesis by blast
  next
    case False
    then have "serializeParams (searchParams u0 @ ?new) =
        (serializeParams (searchParams u0) @ ''&'') @ ?q"
      by (simp only: serializeParams_append echo_query) simp
    then show ?thesis by blast
  qed
  then obtain pre where p: "serializeParams (searchParams u0 @ ?new) = pre @ ?q" by blast
  have "href (backendUrlOf opts u0) = (urlBase u0 @ ''?'' @ pre) @ ?q @ urlFragment u0"
    by (simp add: u href_def p)
  then show ?thesis
    unfolding sublist_def by blast
qed

lemma openServer_url:
  "newURL openServer (proxyServerUrl echoOptions @ ''/sse'') =
     Inr \<lparr>urlBase = ''http://localhost:3000/sse'', searchParams = [], urlFragment = []\<rparr>"
  by (simp add: openServer_def authServer_def plainURL_def echoOptions_def)

subsection \<open>Token refresh\<close>

text \<open>
  C10. When \<^verbatim>\<open>refreshAccessToken\<close> succeeds, \<^verbatim>\<open>handleTokenRefresh\<close> overwrites the stored
  access token with the new one and returns it. The stored refresh token is overwritten only
  when the answer holds a refresh token (a non-empty string, as \<^verbatim>\<open>if (tokens.refresh_token)\<close>
  tests it); otherwise it stays as it was. No other key of the session storage changes. The
  two keys of \<^verbatim>\<open>SESSION_KEYS\<close> are taken to differ.
\<close>

theorem handleTokenRefresh_storage:
  assumes "refreshAccessToken ext attempt (sseUrl opts) = Inr toks"
    and "ACCESS_TOKEN ext \<noteq> REFRESH_TOKEN ext"
    and "handleTokenRefresh ext opts attempt w = (w', res)"
  shows "res = Returned (access_token toks)
     \<and> getItem (ACCESS_TOKEN ext) w' = Some (access_token toks)
     \<and> getItem (REFRESH_TOKEN ext) w' =
         (if truthy (refresh_token toks) then refresh_token toks
          else getItem (REFRESH_TOKEN ext) w)
     \<and> (k \<noteq> ACCESS_TOKEN ext \<and> k \<noteq> REFRESH_TOKEN ext \<longrightarrow> getItem k w' = getItem k w)"
  using assms by (auto simp: handleTokenRefresh_Inr storage_fields truthy_Some split: if_splits)

theorem handleTokenRefresh_storage_witness:
  "refreshAccessToken authServer 0 (sseUrl sseOptions) = Inr \<lparr>access_token = ''fresh'', refresh_token = None\<rparr>
   \<and> ACCESS_TOKEN authServer \<noteq> REFRESH_TOKEN authServer
   \<and> snd (handleTokenRefresh authServer sseOptions 0 staleWorld) = Returned ''fresh''
   \<and> getItem ''mcp_access_token'' (fst (handleTokenRefresh authServer sseOptions 0 staleWorld)) = Some ''fresh''
   \<and> getItem ''mcp_refresh_token'' (fst (handleTokenRefresh authServer sseOptions 0 staleWorld)) = Some ''r1''"
proof -
  have r: "refreshAccessToken authServer 0 (sseUrl sseOptions) =
      Inr \<lparr>access_token = ''fresh'', refresh_token = None\<rparr>"
    by (simp add: authServer_def)
  have k: "ACCESS_TOKEN authServer \<noteq> REFRESH_TOKEN authServer"
    by (simp add: authServer_def)
  have keys: "ACCESS_TOKEN authServer = ''mcp_access_token''"
    "REFRESH_TOKEN authServer = ''mcp_refresh_token''"
    by (simp_all add: authServer_def)
  have old: "getItem ''mcp_refresh_token'' staleWorld = Some ''r1''"
    by (simp add: getItem_def staleWorld_def freshWorld_def)
  show ?thesis
    using handleTokenRefresh_storage [OF r k surjective_pairing, of staleWorld] r k keys old
    by (simp add: truthy_def)
qed

subsection \<open>\<^verbatim>\<open>connect\<close> after a 401\<close>

text \<open>
  C3, as the code has it. When the handshake fails with a 401 of the transport and no
  refresh token is stored, \<^verbatim>\<open>connect\<close> returns with the stored access and refresh tokens
  removed and the target server URL stored. When \<^verbatim>\<open>startOAuthFlow\<close> yields the redirect
  URL, the location is set to it and the connection status is left as it was; when
  \<^verbatim>\<open>startOAuthFlow\<close> fails, its error reaches the \<^verbatim>\<open>catch\<close> at the top and the status
  becomes \<open>Error\<close>.
\<close>

theorem connect_without_refresh_token:
  assumes url: "newURL ext (proxyServerUrl opts @ ''/sse'') = Inr u0"
    and fail: "clientConnect ext retryCount (href (backendUrlOf opts u0)) (authHeaders ext w) =
        HandshakeFailed error"
    and auth: "isSse401 error"
    and none: "\<not> truthy (getItem (REFRESH_TOKEN ext) w)"
    and keys: "SERVER_URL ext \<noteq> ACCESS_TOKEN ext" "SERVER_URL ext \<noteq> REFRESH_TOKEN ext"
  shows "\<exists>w'. connect (Suc fuel) ext opts retryCount w = Some (w', Returned ())
     \<and> getItem (ACCESS_TOKEN ext) w' = None
     \<and> getItem (REFRESH_TOKEN ext) w' = None
     \<and> getItem (SERVER_URL ext) w' = Some (sseUrl opts)
     \<and> (case startOAuthFlow ext retryCount (sseUrl opts) of
          Inr redirectUrl \<Rightarrow>
            connectionStatus w' = connectionStatus w \<and> locationHref w' = Some redirectUrl
        | Inl e \<Rightarrow> connectionStatus w' = Error)"
proof -
  let ?w1 = "console_error (Some ''Failed to connect to MCP server:'') error
                (emit (ConnectCall (href (backendUrlOf opts u0)) (authHeaders ext w)) w)"
  have none1: "\<not> truthy (getItem (REFRESH_TOKEN ext) ?w1)"
    using none by (simp add: storage_fields)
  show ?thesis
  proof (cases "startOAuthFlow ext retryCount (sseUrl opts)")
    case (Inl e)
    then have "connect_try ext opts retryCount w =
        (emit (StartOAuthCall (sseUrl opts))
          (setItem (SERVER_URL ext) (sseUrl opts)
             (removeItem (REFRESH_TOKEN ext) (removeItem (ACCESS_TOKEN ext) ?w1))), TryThrow e)"
      using url fail auth none1
      by (simp add: connect_try_failed handleAuthError_redirect initiateOAuthFlow_Inl)
    then show ?thesis
      using Inl keys by (simp add: storage_fields)
  next
    case (Inr redirectUrl)
    then have "connect_try ext opts retryCount w =
        (emit (Redirect redirectUrl)
          ((emit (StartOAuthCall (sseUrl opts))
             (setItem (SERVER_URL ext) (sseUrl opts)
                (removeItem (REFRESH_TOKEN ext) (removeItem (ACCESS_TOKEN ext) ?w1))))
           \<lparr>locationHref := Some redirectUrl\<rparr>), TryReturn)"
      using url fail auth none1
      by (simp add: connect_try_failed handleAuthError_redirect initiateOAuthFlow_Inr)
    then show ?thesis
      using Inr keys by (simp add: storage_fields)
  qed
qed

theorem connect_without_refresh_token_witness:
  "isSse401 (SseError (Some 401) ''Unauthorized'')
   \<and> \<not> truthy (getItem (REFRESH_TOKEN authServer) freshWorld)
   \<and> (\<exists>w'. connect (Suc 0) authServer sseOptions 0 freshWorld = Some (w', Returned ())
        \<and> getItem ''mcp_access_token'' w' = None
        \<and> getItem ''mcp_refresh_token'' w' = None
        \<and> getItem ''mcp_server_url'' w' = Some ''http://mcp.test/sse''
        \<and> connectionStatus w' = Disconnected
        \<and> locationHref w' = Some ''http://auth.test/authorize'')"
proof -
  let ?u0 = "\<lparr>urlBase = ''http://localhost:3000/sse'', searchParams = [], urlFragment = []\<rparr>"
  have hdrs: "authHeaders authServer freshWorld = []"
    by (simp add: authHeaders_def getItem_def freshWorld_def)
  have fail: "clientConnect authServer 0 (href (backendUrlOf sseOptions ?u0))
      (authHeaders authServer freshWorld) = HandshakeFailed (SseError (Some 401) ''Unauthorized'')"
    by (simp add: hdrs) (simp add: authServer_def)
  have auth: "isSse401 (SseError (Some 401) ''Unauthorized'')" by simp
  have none: "\<not> truthy (getItem (REFRESH_TOKEN authServer) freshWorld)"
    by (simp add: truthy_def getItem_def freshWorld_def)
  have keys: "SERVER_URL authServer \<noteq> ACCESS_TOKEN authServer"
    "SERVER_URL authServer \<noteq> REFRESH_TOKEN authServer"
    by (simp_all add: authServer_def)
  have vals: "ACCESS_TOKEN authServer = ''mcp_access_token''"
    "REFRESH_TOKEN authServer = ''mcp_refresh_token''"
    "SERVER_URL authServer = ''mcp_server_url''"
    "sseUrl sseOptions = ''http://mcp.test/sse''"
    "connectionStatus freshWorld = Disconnected"
    by (simp_all add: authServer_def sseOptions_def echoOptions_def freshWorld_def)
  have flow: "startOAuthFlow authServer 0 target = Inr ''http://auth.test/authorize''" for target
    by (simp add: authServer_def)
  from connect_without_refresh_token [OF authServer_url fail auth none keys, of 0]
  obtain w' where "connect (Suc 0) authServer sseOptions 0 freshWorld = Some (w', Returned ())"
    and "getItem (ACCESS_TOKEN authServer) w' = None"
    and "getItem (REFRESH_TOKEN authServer) w' = None"
    and "getItem (SERVER_URL authServer) w' = Some (sseUrl sseOptions)"
    and "case startOAuthFlow authServer 0 (sseUrl sseOptions) of
          Inr redirectUrl \<Rightarrow>
            connectionStatus w' = connectionStatus freshWorld \<and> locationHref w' = Some redirectUrl
        | Inl e \<Rightarrow> connectionStatus w' = Error"
    by blast
  then have "connect (Suc 0) authServer sseOptions 0 freshWorld = Some (w', Returned ())
        \<and> getItem ''mcp_access_token'' w' = None
        \<and> getItem ''mcp_refresh_token'' w' = None
        \<and> getItem ''mcp_server_url'' w' = Some ''http://mcp.test/sse''
        \<and> connectionStatus w' = Disconnected
        \<and> locationHref w' = Some ''http://auth.test/authorize''"
    by (simp add: flow vals)
  then show ?thesis using auth none by blast
qed

text \<open>
  C3 as stated fails: with no refresh token stored and a 401 from the handshake, a failure of
  \<^verbatim>\<open>startOAuthFlow\<close> turns the status from \<open>Disconnected\<close> to \<open>Error\<close>.
\<close>

theorem connect_redirect_failure_sets_error:
  "connectionStatus freshWorld = Disconnected
   \<and> \<not> truthy (getItem (REFRESH_TOKEN brokenAuth) freshWorld)
   \<and> clientConnect brokenAuth 0
        ''http://localhost:3000/sse?transportType=sse&url=http%3A%2F%2Fmcp.test%2Fsse'' []
      = HandshakeFailed (SseError (Some 401) ''Unauthorized'')
   \<and> map_option (\<lambda>r. connectionStatus (fst r)) (connect 1 brokenAuth sseOptions 0 freshWorld)
      = Some Error"
  by code_simp



subsection \<open>The \<^verbatim>\<open>catch\<close> at the top of \<^verbatim>\<open>connect\<close>\<close>

text \<open>
  C7. Whenever \<^verbatim>\<open>connect\<close> completes, it has returned: it never throws to its caller. What
  a pass through the \<^verbatim>\<open>try\<close> block throws is logged with \<^verbatim>\<open>console.error\<close> and the
  connection status becomes \<open>Error\<close>; a handshake failure that is no 401 is such a case.
  And \<^verbatim>\<open>connect\<close> does complete once a pass does not ask for a retry: with \<open>n\<close> passes
  until then, fuel \<open>n\<close> (or more) suffices.
\<close>

theorem connect_never_throws:
  "(connect fuel ext opts retryCount w = Some (w', res) \<longrightarrow> res = Returned ())
   \<and> (connect_try ext opts retryCount w = (w1, TryThrow e) \<longrightarrow>
        connect (Suc fuel) ext opts retryCount w =
          Some ((console_error None e w1)\<lparr>connectionStatus := Error\<rparr>, Returned ()))
   \<and> (newURL ext (proxyServerUrl opts @ ''/sse'') = Inr u0 \<longrightarrow>
        clientConnect ext retryCount (href (backendUrlOf opts u0)) (authHeaders ext w) =
          HandshakeFailed error \<longrightarrow>
        \<not> isSse401 error \<longrightarrow>
        (\<exists>w2. connect (Suc fuel) ext opts retryCount w = Some (w2, Returned ())
           \<and> connectionStatus w2 = Error \<and> last (trace w2) = ConsoleError None error))
   \<and> (settlesWithin n ext opts retryCount w \<longrightarrow>
        (\<exists>w3. connect (n + fuel) ext opts retryCount w = Some (w3, Returned ())))"
proof (intro conjI impI)
  assume "connect fuel ext opts retryCount w = Some (w', res)"
  then show "res = Returned ()" by (rule connect_returns)
next
  assume "connect_try ext opts retryCount w = (w1, TryThrow e)"
  then show "connect (Suc fuel) ext opts retryCount w =
      Some ((console_error None e w1)\<lparr>connectionStatus := Error\<rparr>, Returned ())"
    by (rule connect_catches)
next
  assume "newURL ext (proxyServerUrl opts @ ''/sse'') = Inr u0"
    and "clientConnect ext retryCount (href (backendUrlOf opts u0)) (authHeaders ext w) =
          HandshakeFailed error"
    and "\<not> isSse401 error"
  then have "connect (Suc fuel) ext opts retryCount w =
      Some ((console_error None error
        (console_error (Some ''Failed to connect to MCP server:'') error
          (emit (ConnectCall (href (backendUrlOf opts u0)) (authHeaders ext w)) w)))
        \<lparr>connectionStatus := Error\<rparr>, Returned ())"
    by (intro connect_catches connect_try_other_failure)
  then show "\<exists>w2. connect (Suc fuel) ext opts retryCount w = Some (w2, Returned ())
           \<and> connectionStatus w2 = Error \<and> last (trace w2) = ConsoleError None error"
    by (simp add: storage_fields)
next
  assume "settlesWithin n ext opts retryCount w"
  then show "\<exists>w3. connect (n + fuel) ext opts retryCount w = Some (w3, Returned ())"
    by (rule connect_settles)
qed

theorem connect_never_throws_witness:
  "connect (Suc 0) downServer sseOptions 0 freshWorld =
     Some ((console_error None (SseError (Some 503) ''Service Unavailable'')
        (console_error (Some ''Failed to connect to MCP server:'') (SseError (Some 503) ''Service Unavailable'')
          (emit (ConnectCall ''http://localhost:3000/sse?transportType=sse&url=http%3A%2F%2Fmcp.test%2Fsse'' [])
             freshWorld)))\<lparr>connectionStatus := Error\<rparr>, Returned ())
   \<and> settlesWithin 2 authServer sseOptions 0 staleWorld
   \<and> (\<exists>w3. connect (2 + 0) authServer sseOptions 0 staleWorld = Some (w3, Returned ()))"
proof -
  have s: "settlesWithin 2 authServer sseOptions 0 staleWorld" by code_simp
  have a: "connect (Suc 0) downServer sseOptions 0 freshWorld =
     Some ((console_error None (SseError (Some 503) ''Service Unavailable'')
        (console_error (Some ''Failed to connect to MCP server:'') (SseError (Some 503) ''Service Unavailable'')
          (emit (ConnectCall ''http://localhost:3000/sse?transportType=sse&url=http%3A%2F%2Fmcp.test%2Fsse'' [])
             freshWorld)))\<lparr>connectionStatus := Error\<rparr>, Returned ())"
    using connect_never_throws [where ext = downServer and opts = sseOptions and retryCount = 0
        and w = freshWorld and fuel = 0 and e = "SseError (Some 503) ''Service Unavailable''"]
      downServer_try
    by blast
  have b: "\<exists>w3. connect (2 + 0) authServer sseOptions 0 staleWorld = Some (w3, Returned ())"
    using connect_never_throws [where ext = authServer and opts = sseOptions and retryCount = 0
        and w = staleWorld and fuel = 0 and n = 2] s
    by blast
  from a s b show ?thesis by blast
qed

subsection \<open>The backend URL and a successful handshake\<close>

text \<open>
  C8. With transport \<^verbatim>\<open>stdio\<close>, command \<^verbatim>\<open>echo\<close>, args \<^verbatim>\<open>hello\<close> and an empty
  environment, the URL given to the transport contains
  \<^verbatim>\<open>transportType=stdio&command=echo&args=hello&env=%7B%7D\<close>, whatever URL the proxy
  address parses to. When the handshake succeeds, \<^verbatim>\<open>connect\<close> returns with the status
  \<open>Connected\<close>, the capabilities the server declared (or none) published, and the client
  of that URL published.
\<close>

theorem connect_stdio_echo:
  assumes "transportType opts = Stdio" and "command opts = ''echo''" and "args opts = ''hello''"
    and "env opts = []"
    and url: "newURL ext (proxyServerUrl opts @ ''/sse'') = Inr u0"
  shows "sublist ''transportType=stdio&command=echo&args=hello&env=%7B%7D''
           (href (backendUrlOf opts u0))
     \<and> (clientConnect ext retryCount (href (backendUrlOf opts u0)) (authHeaders ext w) =
           HandshakeOk capabilities \<longrightarrow>
         (\<exists>w' c. connect (Suc fuel) ext opts retryCount w = Some (w', Returned ())
            \<and> connectionStatus w' = Connected
            \<and> serverCapabilities w' = capabilities
            \<and> mcpClient w' = Some c \<and> transportUrl c = href (backendUrlOf opts u0)
            \<and> trace w' = trace w @ [ConnectCall (href (backendUrlOf opts u0)) (authHeaders ext w)]))"
proof (intro conjI impI)
  show "sublist ''transportType=stdio&command=echo&args=hello&env=%7B%7D''
           (href (backendUrlOf opts u0))"
    using assms(1-4) by (rule echo_href)
next
  assume ok: "clientConnect ext retryCount (href (backendUrlOf opts u0)) (authHeaders ext w) =
           HandshakeOk capabilities"
  have "connect (Suc fuel) ext opts retryCount w =
      Some (connected opts (newClient opts (backendUrlOf opts u0) (authHeaders ext w)) capabilities
        (emit (ConnectCall (href (backendUrlOf opts u0)) (authHeaders ext w)) w), Returned ())"
    using url ok by (simp add: connect_try_ok)
  then show "\<exists>w' c. connect (Suc fuel) ext opts retryCount w = Some (w', Returned ())
            \<and> connectionStatus w' = Connected
            \<and> serverCapabilities w' = capabilities
            \<and> mcpClient w' = Some c \<and> transportUrl c = href (backendUrlOf opts u0)
            \<and> trace w' = trace w @ [ConnectCall (href (backendUrlOf opts u0)) (authHeaders ext w)]"
    by (simp add: connected_def newClient_def emit_fields)
qed

theorem connect_stdio_echo_witness:
  "href (backendUrlOf echoOptions
      \<lparr>urlBase = ''http://localhost:3000/sse'', searchParams = [], urlFragment = []\<rparr>) =
     ''http://localhost:3000/sse?transportType=stdio&command=echo&args=hello&env=%7B%7D''
   \<and> sublist ''transportType=stdio&command=echo&args=hello&env=%7B%7D''
       (href (backendUrlOf echoOptions
          \<lparr>urlBase = ''http://localhost:3000/sse'', searchParams = [], urlFragment = []\<rparr>))
   \<and> (\<exists>w' c. connect (Suc 0) openServer echoOptions 0 freshWorld = Some (w', Returned ())
         \<and> connectionStatus w' = Connected
         \<and> serverCapabilities w' = Some toolsCapabilities
         \<and> mcpClient w' = Some c
         \<and> transportUrl c =
             ''http://localhost:3000/sse?transportType=stdio&command=echo&args=hello&env=%7B%7D'')"
proof -
  let ?u0 = "\<lparr>urlBase = ''http://localhost:3000/sse'', searchParams = [], urlFragment = []\<rparr>"
  have o: "transportType echoOptions = Stdio" "command echoOptions = ''echo''"
    "args echoOptions = ''hello''" "env echoOptions = []"
    by (simp_all add: echoOptions_def)
  have target: "href (backendUrlOf echoOptions ?u0) =
      ''http://localhost:3000/sse?transportType=stdio&command=echo&args=hello&env=%7B%7D''"
    by code_simp
  have ok: "clientConnect openServer 0 (href (backendUrlOf echoOptions ?u0))
      (authHeaders openServer freshWorld) = HandshakeOk (Some toolsCapabilities)"
    by (simp add: openServer_def)
  from connect_stdio_echo [OF o openServer_url, of 0 freshWorld "Some toolsCapabilities" 0] ok
  have s: "sublist ''transportType=stdio&command=echo&args=hello&env=%7B%7D''
       (href (backendUrlOf echoOptions ?u0))"
    and "\<exists>w' c. connect (Suc 0) openServer echoOptions 0 freshWorld = Some (w', Returned ())
            \<and> connectionStatus w' = Connected
            \<and> serverCapabilities w' = Some toolsCapabilities
            \<and> mcpClient w' = Some c \<and> transportUrl c = href (backendUrlOf echoOptions ?u0)
            \<and> trace w' = trace freshWorld @
                [ConnectCall (href (backendUrlOf echoOptions ?u0)) (authHeaders openServer freshWorld)]"
    by blast+
  then obtain w' c where "connect (Suc 0) openServer echoOptions 0 freshWorld = Some (w', Returned ())"
    "connectionStatus w' = Connected" "serverCapabilities w' = Some toolsCapabilities"
    "mcpClient w' = Some c" "transportUrl c = href (backendUrlOf echoOptions ?u0)"
    by blast
  then have "\<exists>w' c. connect (Suc 0) openServer echoOptions 0 freshWorld = Some (w', Returned ())
         \<and> connectionStatus w' = Connected
         \<and> serverCapabilities w' = Some toolsCapabilities
         \<and> mcpClient w' = Some c
         \<and> transportUrl c =
             ''http://localhost:3000/sse?transportType=stdio&command=echo&args=hello&env=%7B%7D''"
    unfolding target by blast
  with target s show ?thesis by blast
qed

subsection \<open>Calls in flight and the history\<close>

lemma makeRequest_settled_history:
  "requestHistory (fst (makeRequest_settled req tid st w)) =
     requestHistory w @
       [\<lparr>request = stringify req,
         response = Some (stringify (case st of Resolved resp \<Rightarrow> resp | Rejected e \<Rightarrow> errorEntry e))\<rparr>]"
  by (cases st)
     (simp_all add: makeRequest_settled_Resolved makeRequest_settled_Rejected gateway_fields)

lemma makeRequest_settled_client:
  "mcpClient (fst (makeRequest_settled req tid st w)) = mcpClient w"
  by (cases st)
     (simp_all add: makeRequest_settled_Resolved makeRequest_settled_Rejected gateway_fields)

lemma sendNotification_settled_sent:
  "sendNotification_settled notification None w = (pushHistory notification None w, Returned ())"
  by (simp add: sendNotification_settled_def)

lemma step_call_request:
  "mcpClient (sysWorld s) = Some c \<Longrightarrow>
   step opts (CallMakeRequest req) s =
     s\<lparr>sysWorld := fst (makeRequest_send opts req (sysWorld s)),
       inflight := inflight s @ [(nextCall s, PendingRequest req (nextTimerId (sysWorld s)))],
       nextCall := Suc (nextCall s)\<rparr>"
  by (simp add: split_beta makeRequest_send_fields)

lemma step_call_notification:
  "mcpClient (sysWorld s) = Some c \<Longrightarrow>
   step opts (CallSendNotification notification) s =
     s\<lparr>sysWorld := emit (NotificationCall notification) (sysWorld s),
       inflight := inflight s @ [(nextCall s, PendingNotification notification)],
       nextCall := Suc (nextCall s)\<rparr>"
  by simp

lemma step_request_settles:
  "map_of (inflight s) cid = Some (PendingRequest req tid) \<Longrightarrow>
   step opts (RequestSettles cid st) s =
     s\<lparr>sysWorld := fst (makeRequest_settled req tid st (sysWorld s)),
       inflight := AList.delete cid (inflight s)\<rparr>"
  by simp

lemma step_timeout_fires:
  "map_of (inflight s) cid = Some (PendingRequest req tid) \<Longrightarrow>
   step opts (TimeoutFires cid) s =
     s\<lparr>sysWorld := fst (makeRequest_settled req tid (Rejected (StrVal ''Request timed out''))
                      (abort ''Request timed out'' (fireTimer tid (sysWorld s)))),
       inflight := AList.delete cid (inflight s)\<rparr>"
  by (simp add: clientAborted_def)

lemma step_notification_settles:
  "map_of (inflight s) cid = Some (PendingNotification notification) \<Longrightarrow>
   step opts (NotificationSettles cid outcome) s =
     s\<lparr>sysWorld := fst (sendNotification_settled notification outcome (sysWorld s)),
       inflight := AList.delete cid (inflight s)\<rparr>"
  by simp

lemma enabled_request:
  "enabled (RequestSettles cid st) s \<Longrightarrow>
   \<exists>req tid. map_of (inflight s) cid = Some (PendingRequest req tid)"
  by (simp split: option.splits pending.splits)

lemma enabled_timeout:
  "enabled (TimeoutFires cid) s \<Longrightarrow>
   \<exists>req tid. map_of (inflight s) cid = Some (PendingRequest req tid)"
  by (simp split: option.splits pending.splits)

lemma enabled_notification:
  "enabled (NotificationSettles cid outcome) s \<Longrightarrow>
   outcome = None \<and> (\<exists>n. map_of (inflight s) cid = Some (PendingNotification n))"
  by (simp split: option.splits pending.splits)

lemma entryOf_old:
  "cid < length cs \<Longrightarrow>
   entryOf (cs @ rest) (cid, r) =
     \<lparr>request = stringify (cs ! cid),
      response = (case r of None \<Rightarrow> None | Some x \<Rightarrow> Some (stringify x))\<rparr>"
  by (simp add: entryOf_def nth_append)

lemma run_history:
  assumes "wellFormed opts evs s"
    and "mcpClient (sysWorld s) = Some c"
    and "nextCall s = length cs"
    and "\<And>cid p. map_of (inflight s) cid = Some p \<Longrightarrow> cid < length cs \<and> payload p = cs ! cid"
  shows "requestHistory (sysWorld (run opts evs s)) =
     requestHistory (sysWorld s) @ map (entryOf (cs @ issued evs)) (settlements evs)"
  using assms
proof (induction evs arbitrary: s cs)
  case Nil
  then show ?case by simp
next
  case (Cons e es)
  from Cons.prems(1) have en: "enabled e s" and wf: "wellFormed opts es (step opts e s)"
    by simp_all
  note client = Cons.prems(2) and len = Cons.prems(3) and inv = Cons.prems(4)
  show ?case
  proof (cases e)
    case (CallMakeRequest req)
    let ?s' = "step opts e s"
    have st: "?s' = s\<lparr>sysWorld := fst (makeRequest_send opts req (sysWorld s)),
       inflight := inflight s @ [(nextCall s, PendingRequest req (nextTimerId (sysWorld s)))],
       nextCall := Suc (nextCall s)\<rparr>"
      using client CallMakeRequest by (simp only: step_call_request)
    have c': "mcpClient (sysWorld ?s') = Some c"
      using client by (simp add: st makeRequest_send_fields)
    have l': "nextCall ?s' = length (cs @ [req])" using len by (simp add: st)
    have i': "cid < length (cs @ [req]) \<and> payload p = (cs @ [req]) ! cid"
      if "map_of (inflight ?s') cid = Some p" for cid p
    proof (cases "map_of (inflight s) cid")
      case None
      with that len have "cid = length cs" and "p = PendingRequest req (nextTimerId (sysWorld s))"
        by (auto simp: st map_add_def split: if_splits)
      then show ?thesis by simp
    next
      case (Some q)
      with that have "p = q" by (simp add: st map_add_def)
      with inv [OF Some] show ?thesis by (simp add: nth_append)
    qed
    have "requestHistory (sysWorld (run opts es ?s')) =
        requestHistory (sysWorld ?s') @ map (entryOf ((cs @ [req]) @ issued es)) (settlements es)"
      using wf c' l' i' by (rule Cons.IH)
    moreover have "requestHistory (sysWorld ?s') = requestHistory (sysWorld s)"
      by (simp add: st makeRequest_send_fields)
    ultimately show ?thesis using CallMakeRequest by simp
  next
    case (CallSendNotification n)
    let ?s' = "step opts e s"
    have st: "?s' = s\<lparr>sysWorld := emit (NotificationCall n) (sysWorld s),
       inflight := inflight s @ [(nextCall s, PendingNotification n)],
       nextCall := Suc (nextCall s)\<rparr>"
      using client CallSendNotification by (simp only: step_call_notification)
    have c': "mcpClient (sysWorld ?s') = Some c"
      using client by (simp add: st emit_fields)
    have l': "nextCall ?s' = length (cs @ [n])" using len by (simp add: st)
    have i': "cid < length (cs @ [n]) \<and> payload p = (cs @ [n]) ! cid"
      if "map_of (inflight ?s') cid = Some p" for cid p
    proof (cases "map_of (inflight s) cid")
      case None
      with that len have "cid = length cs" and "p = PendingNotification n"
        by (auto simp: st map_add_def split: if_splits)
      then show ?thesis by simp
    next
      case (Some q)
      with that have "p = q" by (simp add: st map_add_def)
      with inv [OF Some] show ?thesis by (simp add: nth_append)
    qed
    have "requestHistory (sysWorld (run opts es ?s')) =
        requestHistory (sysWorld ?s') @ map (entryOf ((cs @ [n]) @ issued es)) (settlements es)"
      using wf c' l' i' by (rule Cons.IH)
    moreover have "requestHistory (sysWorld ?s') = requestHistory (sysWorld s)"
      by (simp add: st emit_fields)
    ultimately show ?thesis using CallSendNotification by simp
  next
    case (RequestSettles cid st)
    let ?s' = "step opts e s"
    from en RequestSettles obtain req tid
      where p: "map_of (inflight s) cid = Some (PendingRequest req tid)"
      using enabled_request by blast
    from inv [OF p] have old: "cid < length cs" and req: "cs ! cid = req" by simp_all
    have s': "?s' = s\<lparr>sysWorld := fst (makeRequest_settled req tid st (sysWorld s)),
       inflight := AList.delete cid (inflight s)\<rparr>"
      using p RequestSettles by (simp only: step_request_settles)
    have c': "mcpClient (sysWorld ?s') = Some c"
      using client by (simp add: s' makeRequest_settled_client)
    have l': "nextCall ?s' = length cs" using len by (simp add: s')
    have i': "k < length cs \<and> payload q = cs ! k"
      if "map_of (inflight ?s') k = Some q" for k q
      using that inv [of k q] by (simp add: s' delete_conv' split: if_splits)
    have "requestHistory (sysWorld (run opts es ?s')) =
        requestHistory (sysWorld ?s') @ map (entryOf (cs @ issued es)) (settlements es)"
      using wf c' l' i' by (rule Cons.IH)
    moreover have "requestHistory (sysWorld ?s') = requestHistory (sysWorld s) @
       [\<lparr>request = stringify req,
         response = Some (stringify (case st of Resolved resp \<Rightarrow> resp | Rejected x \<Rightarrow> errorEntry x))\<rparr>]"
      by (simp add: s' makeRequest_settled_history)
    ultimately show ?thesis
      using RequestSettles old req by (cases st) (simp_all add: entryOf_old)
  next
    case (TimeoutFires cid)
    let ?s' = "step opts e s"
    from en TimeoutFires obtain req tid
      where p: "map_of (inflight s) cid = Some (PendingRequest req tid)"
      using enabled_timeout by blast
    from inv [OF p] have old: "cid < length cs" and req: "cs ! cid = req" by simp_all
    have s': "?s' = s\<lparr>sysWorld :=
         fst (makeRequest_settled req tid (Rejected (StrVal ''Request timed out''))
                (abort ''Request timed out'' (fireTimer tid (sysWorld s)))),
       inflight := AList.delete cid (inflight s)\<rparr>"
      using p TimeoutFires by (simp only: step_timeout_fires)
    have c': "mcpClient (sysWorld ?s') = Some c"
      using client by (simp add: s' makeRequest_settled_client gateway_fields)
    have l': "nextCall ?s' = length cs" using len by (simp add: s')
    have i': "k < length cs \<and> payload q = cs ! k"
      if "map_of (inflight ?s') k = Some q" for k q
      using that inv [of k q] by (simp add: s' delete_conv' split: if_splits)
    have "requestHistory (sysWorld (run opts es ?s')) =
        requestHistory (sysWorld ?s') @ map (entryOf (cs @ issued es)) (settlements es)"
      using wf c' l' i' by (rule Cons.IH)
    moreover have "requestHistory (sysWorld ?s') = requestHistory (sysWorld s) @
       [\<lparr>request = stringify req,
         response = Some (stringify (errorEntry (StrVal ''Request timed out'')))\<rparr>]"
      by (simp add: s' makeRequest_settled_history gateway_fields)
    ultimately show ?thesis
      using TimeoutFires old req by (simp add: entryOf_old)
  next
    case (NotificationSettles cid outcome)
    let ?s' = "step opts e s"
    from en NotificationSettles obtain n
      where sent: "outcome = None" and p: "map_of (inflight s) cid = Some (PendingNotification n)"
      using enabled_notification [of cid outcome s] by auto
    from inv [OF p] have old: "cid < length cs" and req: "cs ! cid = n" by simp_all
    have s': "?s' = s\<lparr>sysWorld := pushHistory n None (sysWorld s),
       inflight := AList.delete cid (inflight s)\<rparr>"
      using p NotificationSettles sent
      by (simp only: step_notification_settles sendNotification_settled_sent fst_conv)
    have c': "mcpClient (sysWorld ?s') = Some c"
      using client by (simp add: s' gateway_fields)
    have l': "nextCall ?s' = length cs" using len by (simp add: s')
    have i': "k < length cs \<and> payload q = cs ! k"
      if "map_of (inflight ?s') k = Some q" for k q
      using that inv [of k q] by (simp add: s' delete_conv' split: if_splits)
    have "requestHistory (sysWorld (run opts es ?s')) =
        requestHistory (sysWorld ?s') @ map (entryOf (cs @ issued es)) (settlements es)"
      using wf c' l' i' by (rule Cons.IH)
    moreover have "requestHistory (sysWorld ?s') = requestHistory (sysWorld s) @
       [\<lparr>request = stringify n, response = None\<rparr>]"
      by (simp add: s' gateway_fields)
    ultimately show ?thesis
      using NotificationSettles old req by (simp add: entryOf_old)
  qed
qed

lemma delete_absent: "k \<notin> fst ` set al \<Longrightarrow> AList.delete k al = al"
  by (induction al) auto

lemma length_delete_present:
  "distinct (map fst al) \<Longrightarrow> map_of al k = Some v \<Longrightarrow>
   Suc (length (AList.delete k al)) = length al"
proof (induction al)
  case Nil
  then show ?case by simp
next
  case (Cons a al)
  show ?case
  proof (cases "fst a = k")
    case True
    with Cons.prems(1) have "k \<notin> fst ` set al" by auto
    then have "AList.delete k al = al" by (rule delete_absent)
    with True show ?thesis by (cases a) simp
  next
    case False
    with Cons.prems have "distinct (map fst al)" and "map_of al k = Some v"
      by (cases a; simp)+
    then have "Suc (length (AList.delete k al)) = length al" by (rule Cons.IH)
    with False show ?thesis by (cases a) simp
  qed
qed

lemma keys_delete: "fst ` set (AList.delete k al) \<subseteq> fst ` set al"
  by (induction al) auto

lemma run_count:
  assumes "wellFormed opts evs s"
    and "mcpClient (sysWorld s) = Some c"
    and "distinct (map fst (inflight s))"
    and "\<And>k. k \<in> fst ` set (inflight s) \<Longrightarrow> k < nextCall s"
  shows "length (settlements evs) + length (inflight (run opts evs s)) =
     length (inflight s) + length (issued evs)"
  using assms
proof (induction evs arbitrary: s)
  case Nil
  then show ?case by simp
next
  case (Cons e es)
  from Cons.prems(1) have en: "enabled e s" and wf: "wellFormed opts es (step opts e s)"
    by simp_all
  note client = Cons.prems(2) and dist = Cons.prems(3) and bound = Cons.prems(4)
  let ?s' = "step opts e s"
  have fresh: "nextCall s \<notin> fst ` set (inflight s)" using bound by blast
  have bnd: "\<forall>p \<in> set (inflight s). fst p < nextCall s" using bound by blast
  show ?case
  proof (cases e)
    case (CallMakeRequest req)
    have st: "?s' = s\<lparr>sysWorld := fst (makeRequest_send opts req (sysWorld s)),
       inflight := inflight s @ [(nextCall s, PendingRequest req (nextTimerId (sysWorld s)))],
       nextCall := Suc (nextCall s)\<rparr>"
      using client CallMakeRequest by (simp only: step_call_request)
    have c': "mcpClient (sysWorld ?s') = Some c"
      using client by (simp add: st makeRequest_send_fields)
    have d': "distinct (map fst (inflight ?s'))" using dist fresh by (simp add: st)
    have b': "k < nextCall ?s'" if "k \<in> fst ` set (inflight ?s')" for k
      using that bnd by (fastforce simp: st less_Suc_eq)
    have "length (settlements es) + length (inflight (run opts es ?s')) =
        length (inflight ?s') + length (issued es)"
      using wf c' d' b' by (rule Cons.IH)
    moreover have "length (inflight ?s') = Suc (length (inflight s))" by (simp add: st)
    ultimately show ?thesis using CallMakeRequest by simp
  next
    case (CallSendNotification n)
    have st: "?s' = s\<lparr>sysWorld := emit (NotificationCall n) (sysWorld s),
       inflight := inflight s @ [(nextCall s, PendingNotification n)],
       nextCall := Suc (nextCall s)\<rparr>"
      using client CallSendNotification by (simp only: step_call_notification)
    have c': "mcpClient (sysWorld ?s') = Some c"
      using client by (simp add: st emit_fields)
    have d': "distinct (map fst (inflight ?s'))" using dist fresh by (simp add: st)
    have b': "k < nextCall ?s'" if "k \<in> fst ` set (inflight ?s')" for k
      using that bnd by (fastforce simp: st less_Suc_eq)
    have "length (settlements es) + length (inflight (run opts es ?s')) =
        length (inflight ?s') + length (issued es)"
      using wf c' d' b' by (rule Cons.IH)
    moreover have "length (inflight ?s') = Suc (length (inflight s))" by (simp add: st)
    ultimately show ?thesis using CallSendNotification by simp
  next
    case (RequestSettles cid st)
    from en RequestSettles obtain req tid
      where p: "map_of (inflight s) cid = Some (PendingRequest req tid)"
      using enabled_request by blast
    have s': "?s' = s\<lparr>sysWorld := fst (makeRequest_settled req tid st (sysWorld s)),
       inflight := AList.delete cid (inflight s)\<rparr>"
      using p RequestSettles by (simp only: step_request_settles)
    have c': "mcpClient (sysWorld ?s') = Some c"
      using client by (simp add: s' makeRequest_settled_client)
    have d': "distinct (map fst (inflight ?s'))" using dist by (simp add: s' distinct_delete)
    have b': "k < nextCall ?s'" if "k \<in> fst ` set (inflight ?s')" for k
      using that bound [of k] keys_delete [of cid "inflight s"] by (auto simp: s')
    have "length (settlements es) + length (inflight (run opts es ?s')) =
        length (inflight ?s') + length (issued es)"
      using wf c' d' b' by (rule Cons.IH)
    moreover have "Suc (length (inflight ?s')) = length (inflight s)"
      using length_delete_present [OF dist p] by (simp add: s')
    ultimately show ?thesis using RequestSettles by (cases st) simp_all
  next
    case (TimeoutFires cid)
    from en TimeoutFires obtain req tid
      where p: "map_of (inflight s) cid = Some (PendingRequest req tid)"
      using enabled_timeout by blast
    have s': "?s' = s\<lparr>sysWorld :=
         fst (makeRequest_settled req tid (Rejected (StrVal ''Request timed out''))
                (abort ''Request timed out'' (fireTimer tid (sysWorld s)))),
       inflight := AList.delete cid (inflight s)\<rparr>"
      using p TimeoutFires by (simp only: step_timeout_fires)
    have c': "mcpClient (sysWorld ?s') = Some c"
      using client by (simp add: s' makeRequest_settled_client gateway_fields)
    have d': "distinct (map fst (inflight ?s'))" using dist by (simp add: s' distinct_delete)
    have b': "k < nextCall ?s'" if "k \<in> fst ` set (inflight ?s')" for k
      using that bound [of k] keys_delete [of cid "inflight s"] by (auto simp: s')
    have "length (settlements es) + length (inflight (run opts es ?s')) =
        length (inflight ?s') + length (issued es)"
      using wf c' d' b' by (rule Cons.IH)
    moreover have "Suc (length (inflight ?s')) = length (inflight s)"
      using length_delete_present [OF dist p] by (simp add: s')
    ultimately show ?thesis using TimeoutFires by simp
  next
    case (NotificationSettles cid outcome)
    from en NotificationSettles obtain n
      where sent: "outcome = None" and p: "map_of (inflight s) cid = Some (PendingNotification n)"
      using enabled_notification [of cid outcome s] by auto
    have s': "?s' = s\<lparr>sysWorld := pushHistory n None (sysWorld s),
       inflight := AList.delete cid (inflight s)\<rparr>"
      using p NotificationSettles sent
      by (simp only: step_notification_settles sendNotification_settled_sent fst_conv)
    have c': "mcpClient (sysWorld ?s') = Some c"
      using client by (simp add: s' gateway_fields)
    have d': "distinct (map fst (inflight ?s'))" using dist by (simp add: s' distinct_delete)
    have b': "k < nextCall ?s'" if "k \<in> fst ` set (inflight ?s')" for k
      using that bound [of k] keys_delete [of cid "inflight s"] by (auto simp: s')
    have "length (settlements es) + length (inflight (run opts es ?s')) =
        length (inflight ?s') + length (issued es)"
      using wf c' d' b' by (rule Cons.IH)
    moreover have "Suc (length (inflight ?s')) = length (inflight s)"
      using length_delete_present [OF dist p] by (simp add: s')
    ultimately show ?thesis using NotificationSettles by simp
  qed
qed

lemma overlap_wellFormed:
  assumes "mcpClient w = Some c"
  shows "wellFormed opts
     [CallMakeRequest a, CallMakeRequest b, RequestSettles 1 sb, RequestSettles 0 sa] (initial w)"
  using assms
  by (simp add: initial_def step_call_request [where c = c] makeRequest_send_fields
      del: step.simps(1))

lemma mixed_wellFormed:
  assumes "mcpClient w = Some c"
  shows "wellFormed opts
     [CallMakeRequest a, CallSendNotification n, NotificationSettles 1 None, TimeoutFires 0]
     (initial w)"
  using assms
  by (simp add: initial_def step_call_request [where c = c] step_call_notification [where c = c]
      makeRequest_send_fields emit_fields del: step.simps(1,2))

lemma mixed_done:
  assumes "mcpClient w = Some c"
  shows "inflight (run opts
     [CallMakeRequest a, CallSendNotification n, NotificationSettles 1 None, TimeoutFires 0]
     (initial w)) = []"
  using assms
  by (simp add: initial_def step_call_request [where c = c] step_call_notification [where c = c]
      makeRequest_send_fields emit_fields del: step.simps(1,2))

text \<open>
  C1, as the code has it. Take any schedule of \<^verbatim>\<open>makeRequest\<close> and \<^verbatim>\<open>sendNotification\<close>
  calls on an established session in which every notification is sent successfully. Each
  call appends one history entry, at the moment it settles (with a response, with an error,
  or by its timeout): the history grows by the entries of the settled calls in the order in
  which they settle, and once every call has settled it has grown by exactly the number of
  calls issued.
\<close>

theorem history_in_settlement_order:
  assumes "mcpClient w = Some c" and "wellFormed opts evs (initial w)"
  shows "requestHistory (sysWorld (run opts evs (initial w))) =
        requestHistory w @ map (entryOf (issued evs)) (settlements evs)
     \<and> (inflight (run opts evs (initial w)) = [] \<longrightarrow>
          length (requestHistory (sysWorld (run opts evs (initial w)))) =
            length (requestHistory w) + length (issued evs))"
proof -
  have c: "mcpClient (sysWorld (initial w)) = Some c" using assms(1) by (simp add: initial_def)
  have h: "requestHistory (sysWorld (run opts evs (initial w))) =
      requestHistory (sysWorld (initial w)) @ map (entryOf ([] @ issued evs)) (settlements evs)"
    using assms(2) c by (rule run_history) (simp_all add: initial_def)
  have n: "length (settlements evs) + length (inflight (run opts evs (initial w))) =
      length (inflight (initial w)) + length (issued evs)"
    using assms(2) c by (rule run_count) (simp_all add: initial_def)
  from h n show ?thesis by (auto simp: initial_def)
qed

theorem history_in_settlement_order_witness:
  "mcpClient liveWorld = Some echoClient
   \<and> wellFormed quickOptions
        [CallMakeRequest pingRequest, CallSendNotification listRequest,
         NotificationSettles 1 None, TimeoutFires 0] (initial liveWorld)
   \<and> requestHistory (sysWorld (run quickOptions
        [CallMakeRequest pingRequest, CallSendNotification listRequest,
         NotificationSettles 1 None, TimeoutFires 0] (initial liveWorld))) =
       [\<lparr>request = stringify listRequest, response = None\<rparr>,
        \<lparr>request = stringify pingRequest,
         response = Some (stringify (JObj [(''error'', JStr ''Request timed out'')]))\<rparr>]
   \<and> length (requestHistory (sysWorld (run quickOptions
        [CallMakeRequest pingRequest, CallSendNotification listRequest,
         NotificationSettles 1 None, TimeoutFires 0] (initial liveWorld)))) = 2"
proof -
  let ?evs = "[CallMakeRequest pingRequest, CallSendNotification listRequest,
         NotificationSettles 1 None, TimeoutFires 0]"
  have c: "mcpClient liveWorld = Some echoClient" by (simp add: liveWorld_def)
  have wf: "wellFormed quickOptions ?evs (initial liveWorld)"
    using c by (rule mixed_wellFormed)
  have d: "inflight (run quickOptions ?evs (initial liveWorld)) = []"
    using c by (rule mixed_done)
  have h: "requestHistory liveWorld = []" by (simp add: liveWorld_def freshWorld_def)
  have e: "map (entryOf (issued ?evs)) (settlements ?evs) =
       [\<lparr>request = stringify listRequest, response = None\<rparr>,
        \<lparr>request = stringify pingRequest,
         response = Some (stringify (JObj [(''error'', JStr ''Request timed out'')]))\<rparr>]"
    by (simp add: entryOf_def errorEntry_def messageOrString_def)
  from history_in_settlement_order [OF c wf] d
  have "requestHistory (sysWorld (run quickOptions ?evs (initial liveWorld))) =
        requestHistory liveWorld @ map (entryOf (issued ?evs)) (settlements ?evs)"
    and "length (requestHistory (sysWorld (run quickOptions ?evs (initial liveWorld)))) =
            length (requestHistory liveWorld) + length (issued ?evs)"
    by blast+
  then have "requestHistory (sysWorld (run quickOptions ?evs (initial liveWorld))) =
       [\<lparr>request = stringify listRequest, response = None\<rparr>,
        \<lparr>request = stringify pingRequest,
         response = Some (stringify (JObj [(''error'', JStr ''Request timed out'')]))\<rparr>]"
    and "length (requestHistory (sysWorld (run quickOptions ?evs (initial liveWorld)))) = 2"
    by (simp_all only: h e append_Nil) simp_all
  with c wf show ?thesis by blast
qed

text \<open>
  C1 as stated fails. Two requests are in flight and the second is answered first: the
  history holds the second request before the first. And a \<^verbatim>\<open>sendNotification\<close> that
  fails leaves no entry in the history.
\<close>

theorem history_not_in_issuance_order:
  "issued [CallMakeRequest pingRequest, CallMakeRequest listRequest,
           RequestSettles 1 (Resolved JNull), RequestSettles 0 (Resolved JNull)] =
     [pingRequest, listRequest]
   \<and> map request (requestHistory (sysWorld (run echoOptions
        [CallMakeRequest pingRequest, CallMakeRequest listRequest,
         RequestSettles 1 (Resolved JNull), RequestSettles 0 (Resolved JNull)]
        (initial liveWorld)))) = [stringify listRequest, stringify pingRequest]
   \<and> stringify listRequest \<noteq> stringify pingRequest
   \<and> snd (sendNotification pingRequest (Some (ErrorObj ''Connection closed'')) liveWorld) =
       Threw (ErrorObj ''Connection closed'')
   \<and> requestHistory (fst (sendNotification pingRequest (Some (ErrorObj ''Connection closed''))
        liveWorld)) = []"
proof -
  let ?evs = "[CallMakeRequest pingRequest, CallMakeRequest listRequest,
         RequestSettles 1 (Resolved JNull), RequestSettles 0 (Resolved JNull)]"
  have c: "mcpClient liveWorld = Some echoClient" by (simp add: liveWorld_def)
  have c0: "mcpClient (sysWorld (initial liveWorld)) = Some echoClient"
    by (simp add: initial_def liveWorld_def)
  have wf: "wellFormed echoOptions ?evs (initial liveWorld)"
    using c by (rule overlap_wellFormed)
  have h: "requestHistory liveWorld = []" by (simp add: liveWorld_def freshWorld_def)
  have "requestHistory (sysWorld (run echoOptions ?evs (initial liveWorld))) =
      requestHistory (sysWorld (initial liveWorld)) @ map (entryOf ([] @ issued ?evs)) (settlements ?evs)"
    using wf c0 by (rule run_history) (simp_all add: initial_def)
  then have order: "map request (requestHistory (sysWorld (run echoOptions ?evs (initial liveWorld)))) =
      [stringify listRequest, stringify pingRequest]"
    by (simp add: initial_def h entryOf_def)
  have differ: "stringify listRequest \<noteq> stringify pingRequest"
    by (simp add: listRequest_def pingRequest_def quote_def escapeChar_def)
  have failed: "sendNotification pingRequest (Some (ErrorObj ''Connection closed'')) liveWorld =
      (toast_error ''Connection closed'' (emit (NotificationCall pingRequest) liveWorld),
       Threw (ErrorObj ''Connection closed''))"
    using c by (simp add: sendNotification_def sendNotification_settled_def messageOrString_def)
  have none: "requestHistory (fst (sendNotification pingRequest (Some (ErrorObj ''Connection closed''))
        liveWorld)) = []"
    by (simp add: failed gateway_fields h)
  from order differ failed none show ?thesis by simp
qed

end
